theory Spec2Isabelle
  imports Main "HOL-Library.Multiset"
begin

section \<open>The store of the attendance bot (database.py, database\_repair.py)\<close>

text \<open>
  The SQLite database of the bot is modelled as a value: the rows of the three tables in
  table order, the schema property of \<open>audits\<close> that decides what an INSERT stores in
  the \<open>id\<close> column, and the AUTOINCREMENT counter. Every source function becomes a function
  from the database before the call to its result and the database after it; a rollback
  returns the database the function was called on.
\<close>

subsection \<open>Values and rows\<close>

text \<open>
  A value held by a column, or bound to a \<open>?\<close> parameter: Python's \<open>None\<close> is NULL,
  an \<open>int\<close> is an integer and a \<open>str\<close> a text. Floating point numbers, byte strings
  and integers beyond 64 bits are outside the model.
\<close>

datatype sqlval = SNull | SInt int | SText string

text \<open>
  The columns of \<open>audits\<close> as \<open>init_database\<close> creates them. \<open>update_audit_record\<close>
  writes the name of each keyword argument into the text of its statements, where SQLite
  reads a column name without regard to the case of the letters A to Z: a keyword names
  the column whose name it is once those letters are lowered. SQLite's own names for
  the row id (\<open>rowid\<close>, \<open>oid\<close>, \<open>_rowid_\<close>) are outside the model, where they
  are names of no column.
\<close>

datatype column =
    Col_id
  | Col_user_slack_id
  | Col_workday
  | Col_login_time
  | Col_logout_time
  | Col_self_notified
  | Col_supervisor_notified
  | Col_second_supervisor_notified
  | Col_is_supervisor_acknowledged
  | Col_is_second_supervisor_acknowledged
  | Col_last_supervisor_notification_time
  | Col_last_second_supervisor_notification_time
  | Col_expected_login_time
  | Col_email_supervisor_notified
  | Col_email_second_supervisor_notified

definition audits_columns :: "(string \<times> column) list" where
  "audits_columns =
    [(''id'', Col_id),
     (''user_slack_id'', Col_user_slack_id),
     (''workday'', Col_workday),
     (''login_time'', Col_login_time),
     (''logout_time'', Col_logout_time),
     (''self_notified'', Col_self_notified),
     (''supervisor_notified'', Col_supervisor_notified),
     (''second_supervisor_notified'', Col_second_supervisor_notified),
     (''is_supervisor_acknowledged'', Col_is_supervisor_acknowledged),
     (''is_second_supervisor_acknowledged'', Col_is_second_supervisor_acknowledged),
     (''last_supervisor_notification_time'', Col_last_supervisor_notification_time),
     (''last_second_supervisor_notification_time'', Col_last_second_supervisor_notification_time),
     (''expected_login_time'', Col_expected_login_time),
     (''email_supervisor_notified'', Col_email_supervisor_notified),
     (''email_second_supervisor_notified'', Col_email_second_supervisor_notified)]"

definition ascii_lower :: "char \<Rightarrow> char" where
  "ascii_lower c =
     (case map_of (zip ''ABCDEFGHIJKLMNOPQRSTUVWXYZ'' ''abcdefghijklmnopqrstuvwxyz'') c of
        Some l \<Rightarrow> l
      | None \<Rightarrow> c)"

definition column_of_name :: "string \<Rightarrow> column option" where
  "column_of_name k = map_of audits_columns (map ascii_lower k)"

text \<open>A row of \<open>audits\<close> (what \<open>dict(row)\<close> is in the source): a value for every column.\<close>

type_synonym audit_row = "column \<Rightarrow> sqlval"

text \<open>
  A row of \<open>users\<close>, with the columns the store reads. The dashboard writes them from
  free text fields, so each is a text or NULL; \<open>user_slack_id\<close> and \<open>user_name\<close> are
  NOT NULL.
\<close>

record user_row =
  user_slack_id :: string
  user_name :: string
  user_login_time :: "string option"
  supervisor_slack_id :: "string option"
  second_supervisor_slack_id :: "string option"
  supervisor_email_id :: "string option"
  second_supervisor_email_id :: "string option"

text \<open>A row of \<open>acknowledgment_tokens\<close>; \<open>token\<close> is its primary key.\<close>

record token_row =
  token :: string
  token_user_slack_id :: string
  is_second_supervisor :: int
  created_at :: string
  used :: int

text \<open>
  \<open>audits_pk\<close> holds when \<open>audits.id\<close> is declared
  \<open>INTEGER PRIMARY KEY AUTOINCREMENT\<close> and the columns carry their NOT NULL and DEFAULT
  clauses, as \<open>init_database\<close> and \<open>manual_fix\<close> create the table. It fails for the
  table \<open>clean_duplicate_columns\<close> leaves behind, which it creates from the column names
  and types alone: there an INSERT that names no \<open>id\<close> stores NULL in it, and no
  default applies. \<open>audits_seq\<close> is the largest row id handed out so far.
\<close>

record db =
  users :: "user_row list"
  audits :: "audit_row list"
  audits_pk :: bool
  audits_seq :: int
  acknowledgment_tokens :: "token_row list"

subsection \<open>The clock\<close>

text \<open>
  \<open>datetime.now()\<close> is an argument of the functions that read the clock.
  \<open>utils.get_current_datetime_str()\<close> is not part of the sources at hand: the text it
  returns is an argument of its own.
\<close>

record datetime =
  year :: nat
  month :: nat
  day :: nat
  hour :: nat
  minute :: nat
  second :: nat

definition digit :: "nat \<Rightarrow> char" where
  "digit n = ''0123456789'' ! (n mod 10)"

definition pad2 :: "nat \<Rightarrow> string" where
  "pad2 n = [digit (n div 10), digit n]"

definition pad4 :: "nat \<Rightarrow> string" where
  "pad4 n = [digit (n div 1000), digit (n div 100), digit (n div 10), digit n]"

text \<open>\<open>strftime("%Y-%m-%d")\<close>, \<open>strftime("%H:%M")\<close> and \<open>strftime("%Y-%m-%d %H:%M")\<close>.\<close>

definition strftime_Ymd :: "datetime \<Rightarrow> string" where
  "strftime_Ymd now = pad4 (year now) @ ''-'' @ pad2 (month now) @ ''-'' @ pad2 (day now)"

definition strftime_HM :: "datetime \<Rightarrow> string" where
  "strftime_HM now = pad2 (hour now) @ '':'' @ pad2 (minute now)"

definition strftime_Ymd_HM :: "datetime \<Rightarrow> string" where
  "strftime_Ymd_HM now = strftime_Ymd now @ '' '' @ strftime_HM now"

subsection \<open>SQL fragments\<close>

text \<open>\<open>cursor.fetchone()\<close>: the first row of the result, or \<open>None\<close>.\<close>

definition fetchone :: "'a list \<Rightarrow> 'a option" where
  "fetchone rows = (case rows of [] \<Rightarrow> None | r # _ \<Rightarrow> Some r)"

text \<open>\<open>column = ?\<close> in a WHERE clause: never true of NULL.\<close>

definition sql_eq :: "sqlval \<Rightarrow> sqlval \<Rightarrow> bool" where
  "sql_eq a b = (a \<noteq> SNull \<and> b \<noteq> SNull \<and> a = b)"

text \<open>
  \<open>column > 0\<close>: not true of NULL; SQLite orders every text above every integer.
\<close>

definition sql_gt0 :: "sqlval \<Rightarrow> bool" where
  "sql_gt0 a = (case a of SNull \<Rightarrow> False | SInt i \<Rightarrow> 0 < i | SText t \<Rightarrow> True)"

text \<open>A text column of \<open>users\<close> as a value.\<close>

definition text_or_null :: "string option \<Rightarrow> sqlval" where
  "text_or_null t = (case t of None \<Rightarrow> SNull | Some x \<Rightarrow> SText x)"

text \<open>
  What a column stores when a value is written to it depends on its declared type (its
  affinity): a TEXT column stores an integer as its decimal text; an INTEGER column
  stores a text that spells an integer (blanks around it, a sign, digits) as that
  integer, and any other text as it is. A text that spells a number with a point or an
  exponent is outside the model. The table that \<open>clean_duplicate_columns\<close> recreates
  keeps the declared types. The same conversion is applied to a parameter that a WHERE
  clause compares with a column. The rows of a table hold values as they were stored.
\<close>

definition text_columns :: "column list" where
  "text_columns =
     [Col_user_slack_id, Col_workday, Col_login_time, Col_logout_time,
      Col_last_supervisor_notification_time, Col_last_second_supervisor_notification_time,
      Col_expected_login_time]"

fun decimal_nat :: "nat \<Rightarrow> string" where
  "decimal_nat n = (if n < 10 then [digit n] else decimal_nat (n div 10) @ [digit n])"

declare decimal_nat.simps [simp del]

definition decimal :: "int \<Rightarrow> string" where
  "decimal i = (if i < 0 then CHR ''-'' # decimal_nat (nat (- i)) else decimal_nat (nat i))"

definition is_space :: "char \<Rightarrow> bool" where
  "is_space c = (c = CHR '' '' \<or> (9::nat) \<le> of_char c \<and> (of_char c :: nat) \<le> 13)"

definition digit_val :: "char \<Rightarrow> nat option" where
  "digit_val c =
     (if (48::nat) \<le> of_char c \<and> (of_char c :: nat) \<le> 57 then Some (of_char c - 48) else None)"

fun digits_value :: "string \<Rightarrow> nat \<Rightarrow> nat option" where
  "digits_value [] acc = Some acc"
| "digits_value (c # cs) acc =
     (case digit_val c of None \<Rightarrow> None | Some d \<Rightarrow> digits_value cs (10 * acc + d))"

definition integer_literal :: "string \<Rightarrow> int option" where
  "integer_literal t =
     (let body = dropWhile is_space (rev (dropWhile is_space (rev t)));
          (negative, ds) =
            (case body of
               c # cs \<Rightarrow> if c = CHR ''-'' then (True, cs) else if c = CHR ''+'' then (False, cs)
                         else (False, body)
             | [] \<Rightarrow> (False, []))
      in if ds = [] then None
         else map_option (\<lambda>n. if negative then - int n else int n) (digits_value ds 0))"

definition stored :: "column \<Rightarrow> sqlval \<Rightarrow> sqlval" where
  "stored c v =
     (if List.member text_columns c
      then (case v of SInt i \<Rightarrow> SText (decimal i) | _ \<Rightarrow> v)
      else (case v of
              SText t \<Rightarrow> (case integer_literal t of Some i \<Rightarrow> SInt i | None \<Rightarrow> v)
            | _ \<Rightarrow> v))"

text \<open>\<open>WHERE user_slack_id = ? AND workday = ?\<close> on \<open>audits\<close>.\<close>

definition for_user_workday :: "string \<Rightarrow> string \<Rightarrow> audit_row \<Rightarrow> bool" where
  "for_user_workday uid workday r =
     (sql_eq (r Col_user_slack_id) (SText uid) \<and> sql_eq (r Col_workday) (SText workday))"

text \<open>\<open>SELECT user_login_time FROM users WHERE user_slack_id = ?\<close>, then
  \<open>user[0] if user else None\<close>.\<close>

definition user_expected_login_time :: "string \<Rightarrow> db \<Rightarrow> sqlval" where
  "user_expected_login_time uid s =
     (case fetchone (map user_login_time (filter (\<lambda>u. user_slack_id u = uid) (users s))) of
        Some t \<Rightarrow> text_or_null t
      | None \<Rightarrow> SNull)"

text \<open>
  \<open>SET c1 = ?, c2 = ?, ...\<close> applied to one row: each column named stores the value
  given to it; of a column named more than once, SQLite takes the rightmost assignment.
\<close>

definition assign :: "(column \<times> sqlval) list \<Rightarrow> audit_row \<Rightarrow> audit_row" where
  "assign sets r = (\<lambda>c. case map_of (rev sets) c of Some v \<Rightarrow> stored c v | None \<Rightarrow> r c)"

text \<open>\<open>UPDATE audits SET ... WHERE id = ?\<close> on the rows of the table.\<close>

definition update_where_id :: "(column \<times> sqlval) list \<Rightarrow> sqlval \<Rightarrow> audit_row list \<Rightarrow> audit_row list" where
  "update_where_id sets audit_id rows =
     map (\<lambda>r. if sql_eq (r Col_id) audit_id then assign sets r else r) rows"

text \<open>\<open>DELETE FROM audits WHERE user_slack_id = ? AND workday = ?\<close>.\<close>

definition delete_audits :: "string \<Rightarrow> string \<Rightarrow> db \<Rightarrow> db" where
  "delete_audits uid workday s =
     s\<lparr>audits := filter (\<lambda>r. \<not> for_user_workday uid workday r) (audits s)\<rparr>"

text \<open>
  The row id of the next INSERT: one more than the largest handed out or present.
\<close>

definition max_id :: "audit_row list \<Rightarrow> int" where
  "max_id rows = foldr (\<lambda>r m. case r Col_id of SInt i \<Rightarrow> max i m | _ \<Rightarrow> m) rows 0"

definition next_rowid :: "db \<Rightarrow> int" where
  "next_rowid s = max (audits_seq s) (max_id (audits s)) + 1"

text \<open>
  What an INSERT stores in a column it does not name: the row id in \<open>id\<close> and the
  declared \<open>DEFAULT 0\<close> of the counters and flags where the table has its full
  declaration, NULL otherwise.
\<close>

definition default_zero :: "column list" where
  "default_zero =
     [Col_self_notified, Col_supervisor_notified, Col_second_supervisor_notified,
      Col_is_supervisor_acknowledged, Col_is_second_supervisor_acknowledged,
      Col_email_supervisor_notified, Col_email_second_supervisor_notified]"

definition column_default :: "db \<Rightarrow> column \<Rightarrow> sqlval" where
  "column_default s c =
     (if c = Col_id then (if audits_pk s then SInt (next_rowid s) else SNull)
      else if audits_pk s \<and> List.member default_zero c then SInt 0
      else SNull)"

text \<open>\<open>INSERT INTO audits (c1, c2, ...) VALUES (...)\<close>; the second component is
  \<open>cursor.lastrowid\<close>.\<close>

definition inserted_row :: "(column \<times> sqlval) list \<Rightarrow> db \<Rightarrow> audit_row" where
  "inserted_row vals s = (\<lambda>c. case map_of vals c of Some v \<Rightarrow> v | None \<Rightarrow> column_default s c)"

definition insert_audits :: "(column \<times> sqlval) list \<Rightarrow> db \<Rightarrow> db \<times> int" where
  "insert_audits vals s =
     (s\<lparr>audits := audits s @ [inserted_row vals s], audits_seq := next_rowid s\<rparr>, next_rowid s)"

text \<open>
  The column list shared by the INSERTs that create an empty record for a day. The user
  and the workday are texts; the expected login time is whatever the caller passes.
\<close>

definition new_record :: "string \<Rightarrow> string \<Rightarrow> sqlval \<Rightarrow> (column \<times> sqlval) list" where
  "new_record uid workday expected_login_time =
     [(Col_user_slack_id, SText uid), (Col_workday, SText workday),
      (Col_self_notified, SInt 0), (Col_supervisor_notified, SInt 0),
      (Col_second_supervisor_notified, SInt 0), (Col_is_supervisor_acknowledged, SInt 0),
      (Col_is_second_supervisor_acknowledged, SInt 0),
      (Col_expected_login_time, stored Col_expected_login_time expected_login_time)]"

subsection \<open>Reading and creating the record of a day\<close>

text \<open>
  \<open>get_audit_record\<close>: the result is the row as a dictionary, or \<open>None\<close>. When the
  first row found has no id, the rows of the day are deleted and one is inserted in their
  place, in a transaction of its own that is committed before the row is read again.
\<close>

definition get_audit_record :: "string \<Rightarrow> string \<Rightarrow> db \<Rightarrow> audit_row option \<times> db" where
  "get_audit_record uid workday s =
     (let id_check = fetchone (map (\<lambda>r. r Col_id) (filter (for_user_workday uid workday) (audits s)));
          s1 =
            (if id_check = None \<or> id_check = Some SNull then
               (let count = length (filter (for_user_workday uid workday) (audits s)) in
                if 0 < count then
                  (let s2 = delete_audits uid workday s;
                       expected_login_time = user_expected_login_time uid s2
                   in fst (insert_audits (new_record uid workday expected_login_time) s2))
                else s)
             else s);
          rec = fetchone (filter (for_user_workday uid workday) (audits s1))
      in case rec of
           Some record_dict \<Rightarrow>
             if record_dict Col_id = SNull then (None, s1) else (Some record_dict, s1)
         | None \<Rightarrow> (None, s1))"

text \<open>
  \<open>create_audit_record\<close> returns the id, or raises after a rollback when the row it
  inserted reads back without an id.
\<close>

datatype exn = Failed_to_create_audit_record

definition create_audit_record ::
    "string \<Rightarrow> string \<Rightarrow> sqlval \<Rightarrow> db \<Rightarrow> (exn + sqlval) \<times> db" where
  "create_audit_record uid workday expected_login_time s =
     (let existing = fetchone (map (\<lambda>r. r Col_id) (filter (for_user_workday uid workday) (audits s)));
          created =
            (let s1 = delete_audits uid workday s;
                 (s2, record_id) = insert_audits (new_record uid workday expected_login_time) s1;
                 verification =
                   fetchone (map (\<lambda>r. r Col_id) (filter (for_user_workday uid workday) (audits s2)))
             in if verification \<noteq> None \<and> verification \<noteq> Some SNull
                then (Inr (SInt record_id), s2)
                else (Inl Failed_to_create_audit_record, s))
      in case existing of
           Some v \<Rightarrow> if v \<noteq> SNull then (Inr v, s) else created
         | None \<Rightarrow> created)"

subsection \<open>Recording a login and a logout\<close>

definition update_user_login :: "string \<Rightarrow> string \<Rightarrow> string \<Rightarrow> db \<Rightarrow> bool \<times> db" where
  "update_user_login uid workday login_time s =
     (let rec = fetchone (map (\<lambda>r. r Col_id) (filter (for_user_workday uid workday) (audits s)));
          s1 =
            (case rec of
               Some audit_id \<Rightarrow>
                 s\<lparr>audits := update_where_id [(Col_login_time, SText login_time)] audit_id (audits s)\<rparr>
             | None \<Rightarrow>
                 (let expected_login_time = user_expected_login_time uid s
                  in fst (insert_audits
                       ((Col_login_time, SText login_time) # new_record uid workday expected_login_time) s)));
          verification =
            fetchone (map (\<lambda>r. r Col_login_time) (filter (for_user_workday uid workday) (audits s1)))
      in if verification = Some (SText login_time) then (True, s1) else (False, s))"

definition record_user_login :: "datetime \<Rightarrow> string \<Rightarrow> db \<Rightarrow> bool \<times> db" where
  "record_user_login now uid s =
     (let workday = strftime_Ymd now; login_time = strftime_Ymd_HM now
      in update_user_login uid workday login_time s)"

definition record_user_logout :: "datetime \<Rightarrow> string \<Rightarrow> db \<Rightarrow> bool \<times> db" where
  "record_user_logout now uid s =
     (let workday = strftime_Ymd now;
          logout_time = strftime_Ymd_HM now;
          rec = fetchone (map (\<lambda>r. r Col_id) (filter (for_user_workday uid workday) (audits s)));
          s1 =
            (case rec of
               Some audit_id \<Rightarrow>
                 s\<lparr>audits := update_where_id [(Col_logout_time, SText logout_time)] audit_id (audits s)\<rparr>
             | None \<Rightarrow>
                 (let expected_login_time = user_expected_login_time uid s
                  in fst (insert_audits
                       ((Col_logout_time, SText logout_time) # new_record uid workday expected_login_time) s)));
          verification =
            fetchone (map (\<lambda>r. r Col_logout_time) (filter (for_user_workday uid workday) (audits s1)))
      in if verification = Some (SText logout_time) then (True, s1) else (False, s))"

subsection \<open>update\_audit\_record\<close>

text \<open>
  The keyword arguments are a dictionary from names to values, in the order of the call;
  a name is a Python identifier, which the source writes into the statement as it is.
  SQLite refuses the UPDATE (the \<open>except\<close> branch of the source: rollback, \<open>False\<close>)
  when a name is not a column of the table, and, where the NOT NULL clauses are in force,
  when a row it matches would get a NULL \<open>user_slack_id\<close> or \<open>workday\<close>. An UPDATE
  that gives a row another \<open>id\<close> is followed by a read by the old id that finds
  nothing, so the source answers \<open>False\<close> and rolls back whether or not the primary key
  refuses the new id: the model lets that UPDATE pass.
\<close>

definition resolve :: "(string \<times> sqlval) list \<Rightarrow> (column \<times> sqlval) list option" where
  "resolve kwargs = those (map (\<lambda>(k, v). map_option (\<lambda>c. (c, v)) (column_of_name k)) kwargs)"

definition not_null_violated :: "(column \<times> sqlval) list \<Rightarrow> sqlval \<Rightarrow> audit_row list \<Rightarrow> bool" where
  "not_null_violated sets audit_id rows =
     (list_ex (\<lambda>c. map_of (rev sets) c = Some SNull) [Col_user_slack_id, Col_workday]
      \<and> list_ex (\<lambda>r. sql_eq (r Col_id) audit_id) rows)"

text \<open>
  The result is \<open>None\<close> where the source returns without a value, \<open>Some True\<close> and
  \<open>Some False\<close> where it returns \<open>True\<close> and \<open>False\<close>. The verification the source
  performs after the UPDATE is that the SELECT of the written fields returns a row: the
  values it reads are not looked at. \<open>WHERE id = ?\<close> compares the column with the
  parameter as an INTEGER column stores it.
\<close>

definition update_audit_record ::
    "sqlval \<Rightarrow> (string \<times> sqlval) list \<Rightarrow> db \<Rightarrow> bool option \<times> db" where
  "update_audit_record audit_id kwargs s =
     (if kwargs = [] then (None, s)
      else if audit_id = SNull then (Some False, s)
      else
        (case resolve kwargs of
           None \<Rightarrow> (Some False, s)
         | Some sets \<Rightarrow>
             if audits_pk s \<and> not_null_violated sets (stored Col_id audit_id) (audits s)
             then (Some False, s)
             else
               (let s1 = s\<lparr>audits := update_where_id sets (stored Col_id audit_id) (audits s)\<rparr> in
                if kwargs \<noteq> [] \<and> map fst kwargs \<noteq> [] then
                  (case fetchone (filter (\<lambda>r. sql_eq (r Col_id) (stored Col_id audit_id)) (audits s1)) of
                     Some verification \<Rightarrow> (Some True, s1)
                   | None \<Rightarrow> (Some False, s))
                else (Some True, s1))))"

text \<open>Python's truth value of what \<open>update_audit_record\<close> returns.\<close>

definition truthy :: "bool option \<Rightarrow> bool" where
  "truthy r = (case r of None \<Rightarrow> False | Some b \<Rightarrow> b)"

subsection \<open>Acknowledgment tokens\<close>

text \<open>
  \<open>store_acknowledgment_token\<close>: the INSERT fails on a token that is already a key of
  the table. \<open>now_str\<close> is what \<open>utils.get_current_datetime_str()\<close> returns.
\<close>

definition store_acknowledgment_token ::
    "string \<Rightarrow> string \<Rightarrow> bool \<Rightarrow> string \<Rightarrow> db \<Rightarrow> bool \<times> db" where
  "store_acknowledgment_token tok uid is_second now_str s =
     (if list_ex (\<lambda>t. token t = tok) (acknowledgment_tokens s) then (False, s)
      else
        (True,
         s\<lparr>acknowledgment_tokens := acknowledgment_tokens s @
             [\<lparr>token = tok, token_user_slack_id = uid,
               is_second_supervisor = (if is_second then 1 else 0),
               created_at = now_str, used = 0\<rparr>]\<rparr>))"

definition get_acknowledgment_token :: "string \<Rightarrow> db \<Rightarrow> token_row option" where
  "get_acknowledgment_token tok s =
     fetchone (filter (\<lambda>t. token t = tok) (acknowledgment_tokens s))"

definition mark_token_used :: "string \<Rightarrow> db \<Rightarrow> bool \<times> db" where
  "mark_token_used tok s =
     (True,
      s\<lparr>acknowledgment_tokens :=
          map (\<lambda>t. if token t = tok then t\<lparr>used := 1\<rparr> else t) (acknowledgment_tokens s)\<rparr>)"

text \<open>
  Modelled from the spec: \<open>validateAndConsume\<close>, the caller of the two functions above,
  whose source (the route behind the acknowledgment link) is not at hand. Section 4.2:
  it "fails with Invalid if the token does not exist or is already used; otherwise
  atomically marks it used and returns its payload".
\<close>

datatype consumed = Invalid | Payload string bool

definition validate_and_consume :: "string \<Rightarrow> db \<Rightarrow> consumed \<times> db" where
  "validate_and_consume tok s =
     (case get_acknowledgment_token tok s of
        None \<Rightarrow> (Invalid, s)
      | Some token_data \<Rightarrow>
          if used token_data \<noteq> 0 then (Invalid, s)
          else
            (case mark_token_used tok s of
               (True, s1) \<Rightarrow>
                 (Payload (token_user_slack_id token_data) (is_second_supervisor token_data \<noteq> 0), s1)
             | (False, s1) \<Rightarrow> (Invalid, s1)))"

subsection \<open>Users past their expected login\<close>

text \<open>\<open>text <= text\<close> in SQLite: the bytes are compared as \<open>memcmp\<close> does, a proper
  prefix being smaller.\<close>

fun text_le :: "string \<Rightarrow> string \<Rightarrow> bool" where
  "text_le [] ys = True"
| "text_le (x # xs) [] = False"
| "text_le (x # xs) (y # ys) =
     ((of_char x :: nat) < of_char y \<or> (x = y \<and> text_le xs ys))"

text \<open>\<open>x IN (SELECT ...)\<close> and \<open>x NOT IN (SELECT ...)\<close>, where they are true.\<close>

definition sql_in :: "sqlval \<Rightarrow> sqlval list \<Rightarrow> bool" where
  "sql_in x vs = list_ex (sql_eq x) vs"

definition sql_not_in :: "sqlval \<Rightarrow> sqlval list \<Rightarrow> bool" where
  "sql_not_in x vs =
     (vs = [] \<or> (x \<noteq> SNull \<and> \<not> list_ex (sql_eq x) vs \<and> \<not> List.member vs SNull))"

text \<open>
  The query names no order: the rows come in the order SQLite chooses to visit them (that
  of \<open>idx_users_login_time\<close> where it answers through that index), so the result is the
  rows without their order.
\<close>

definition get_users_without_login :: "datetime \<Rightarrow> db \<Rightarrow> user_row multiset" where
  "get_users_without_login now s =
     (let current_time = strftime_HM now;
          today = strftime_Ymd now;
          logged_in =
            map (\<lambda>r. r Col_user_slack_id)
              (filter (\<lambda>r. sql_eq (r Col_workday) (SText today) \<and> r Col_login_time \<noteq> SNull) (audits s));
          not_logged_in =
            map (\<lambda>r. r Col_user_slack_id)
              (filter (\<lambda>r. r Col_login_time = SNull \<and> sql_eq (r Col_workday) (SText today)) (audits s))
      in mset
           (filter
              (\<lambda>u. (case user_login_time u of None \<Rightarrow> False | Some t \<Rightarrow> text_le t current_time)
                   \<and> (sql_not_in (SText (user_slack_id u)) logged_in
                       \<or> sql_in (SText (user_slack_id u)) not_logged_in))
              (users s)))"

subsection \<open>Stuck records\<close>

text \<open>The WHERE clause that \<open>check_database_integrity\<close> and \<open>fix_stuck_records\<close> share.\<close>

definition stuck :: "string \<Rightarrow> audit_row \<Rightarrow> bool" where
  "stuck today r =
     (sql_eq (r Col_workday) (SText today)
      \<and> sql_gt0 (r Col_supervisor_notified)
      \<and> sql_eq (r Col_second_supervisor_notified) (SInt 0)
      \<and> sql_eq (r Col_is_supervisor_acknowledged) (SInt 0))"

definition required_columns :: "string list" where
  "required_columns =
     [''second_supervisor_notified'', ''is_second_supervisor_acknowledged'',
      ''last_supervisor_notification_time'', ''last_second_supervisor_notification_time'',
      ''expected_login_time'', ''email_supervisor_notified'', ''email_second_supervisor_notified'']"

text \<open>The dictionary \<open>issues\<close>: a key that is absent is \<open>None\<close>.\<close>

record issues =
  missing_columns :: "string list option"
  stuck_records :: "nat option"

definition check_database_integrity :: "datetime \<Rightarrow> db \<Rightarrow> issues" where
  "check_database_integrity now s =
     (let columns = map fst audits_columns;
          missing = filter (\<lambda>c. \<not> List.member columns c) required_columns;
          today = strftime_Ymd now;
          n = length (filter (stuck today) (audits s))
      in \<lparr>missing_columns = (if missing \<noteq> [] then Some missing else None),
          stuck_records = (if 0 < n then Some n else None)\<rparr>)"

text \<open>The SET clause of the UPDATE in \<open>fix_stuck_records\<close>, and its loop over the
  ids it selected.\<close>

definition reset_sets :: "string \<Rightarrow> (column \<times> sqlval) list" where
  "reset_sets now_str =
     [(Col_second_supervisor_notified, SInt 0),
      (Col_is_second_supervisor_acknowledged, SInt 0),
      (Col_last_supervisor_notification_time, SText now_str)]"

fun reset_stuck :: "sqlval list \<Rightarrow> string \<Rightarrow> audit_row list \<Rightarrow> nat \<Rightarrow> audit_row list \<times> nat" where
  "reset_stuck [] now_str rows fixed_count = (rows, fixed_count)"
| "reset_stuck (audit_id # stuck_ids) now_str rows fixed_count =
     reset_stuck stuck_ids now_str
       (update_where_id (reset_sets now_str) audit_id rows)
       (fixed_count + 1)"

text \<open>The result is \<open>fixed_count\<close>, of the dictionary with status \<open>success\<close>.\<close>

definition fix_stuck_records :: "datetime \<Rightarrow> string \<Rightarrow> db \<Rightarrow> nat \<times> db" where
  "fix_stuck_records now now_str s =
     (let today = strftime_Ymd now;
          stuck_ids = map (\<lambda>r. r Col_id) (filter (stuck today) (audits s));
          (rows, fixed_count) = reset_stuck stuck_ids now_str (audits s) 0
      in (fixed_count, s\<lparr>audits := rows\<rparr>))"

subsection \<open>The repair tool (database\_repair.py)\<close>

text \<open>\<open>COALESCE(x, 0)\<close>.\<close>

definition coalesce0 :: "sqlval \<Rightarrow> sqlval" where
  "coalesce0 v = (if v = SNull then SInt 0 else v)"

text \<open>The column list and the SELECT list of the two \<open>INSERT INTO new_audits\<close>.\<close>

definition copied :: "audit_row \<Rightarrow> (column \<times> sqlval) list" where
  "copied r =
     [(Col_user_slack_id, r Col_user_slack_id), (Col_workday, r Col_workday),
      (Col_login_time, r Col_login_time), (Col_logout_time, r Col_logout_time),
      (Col_self_notified, coalesce0 (r Col_self_notified)),
      (Col_supervisor_notified, coalesce0 (r Col_supervisor_notified)),
      (Col_second_supervisor_notified, coalesce0 (r Col_second_supervisor_notified)),
      (Col_is_supervisor_acknowledged, coalesce0 (r Col_is_supervisor_acknowledged)),
      (Col_is_second_supervisor_acknowledged, coalesce0 (r Col_is_second_supervisor_acknowledged)),
      (Col_last_supervisor_notification_time, r Col_last_supervisor_notification_time),
      (Col_last_second_supervisor_notification_time, r Col_last_second_supervisor_notification_time),
      (Col_expected_login_time, r Col_expected_login_time),
      (Col_email_supervisor_notified, coalesce0 (r Col_email_supervisor_notified)),
      (Col_email_second_supervisor_notified, coalesce0 (r Col_email_second_supervisor_notified))]"

text \<open>
  \<open>INSERT INTO new_audits (...) SELECT ...\<close> over the selected rows, in table order.
  \<open>new_audits\<close> declares \<open>user_slack_id\<close> and \<open>workday\<close> NOT NULL: a selected row
  with a NULL there makes the statement fail (\<open>None\<close>).
\<close>

fun insert_select :: "audit_row list \<Rightarrow> db \<Rightarrow> db option" where
  "insert_select [] t = Some t"
| "insert_select (r # rs) t =
     (if r Col_user_slack_id \<noteq> SNull \<and> r Col_workday \<noteq> SNull
      then insert_select rs (fst (insert_audits (copied r) t))
      else None)"

definition fix_user_record :: "string \<Rightarrow> datetime \<Rightarrow> db \<Rightarrow> bool \<times> db" where
  "fix_user_record uid now s =
     (let expected_login_time = user_expected_login_time uid s;
          today = strftime_Ymd now;
          rec = fetchone (map (\<lambda>r. r Col_id) (filter (for_user_workday uid today) (audits s)))
      in if rec = None
         then (True, fst (insert_audits (new_record uid today expected_login_time) s))
         else (True, s))"

text \<open>
  \<open>manual_fix\<close>. The table \<open>new_audits\<close> is taken not to exist before the call, so it
  starts empty with its own AUTOINCREMENT counter. The second INSERT reads, in its
  NOT EXISTS, the table it writes: SQLite then evaluates the SELECT to its end before it
  inserts, so the rows it adds do not hide each other. The rows are held in the
  \<open>audits\<close> field of the database under construction, which the final RENAME makes the
  table \<open>audits\<close>.
\<close>

definition manual_fix :: "datetime \<Rightarrow> db \<Rightarrow> bool \<times> db" where
  "manual_fix now s =
     (let new_audits = s\<lparr>audits := [], audits_pk := True, audits_seq := 0\<rparr> in
      case insert_select (filter (\<lambda>r. r Col_id \<noteq> SNull) (audits s)) new_audits of
        None \<Rightarrow> (False, s)
      | Some t1 \<Rightarrow>
          (case insert_select
                  (filter
                     (\<lambda>a1. a1 Col_id = SNull
                        \<and> \<not> list_ex
                             (\<lambda>a2. sql_eq (a2 Col_user_slack_id) (a1 Col_user_slack_id)
                                  \<and> sql_eq (a2 Col_workday) (a1 Col_workday))
                             (audits t1))
                     (audits s))
                  t1 of
             None \<Rightarrow> (False, s)
           | Some t2 \<Rightarrow> (True, snd (fix_user_record ''U06081ECKT3'' now t2))))"

text \<open>
  The row that the rebuild of \<open>manual_fix\<close> writes for a row of the old table, given
  the id it gets: the counters and flags with NULL read as 0, every other column but
  the id as it was.
\<close>

definition carried :: "int \<Rightarrow> audit_row \<Rightarrow> audit_row" where
  "carried i r =
     (\<lambda>c. if c = Col_id then SInt i
          else if List.member default_zero c then coalesce0 (r c)
          else r c)"

text \<open>Every row has an id, and no two rows share one.\<close>

definition ids_ok :: "audit_row list \<Rightarrow> bool" where
  "ids_ok rows \<longleftrightarrow>
     list_all (\<lambda>r. r Col_id \<noteq> SNull) rows \<and> distinct (map (\<lambda>r. r Col_id) rows)"

subsection \<open>Notions of the specification\<close>

text \<open>
  The time of day a text of the form \<open>HH:MM\<close> denotes, in minutes after midnight: the
  reading the specification gives to \<open>user_login_time\<close> and to the current time.
\<close>

definition two_digits :: "char \<Rightarrow> char \<Rightarrow> nat option" where
  "two_digits a b =
     (case (digit_val a, digit_val b) of (Some x, Some y) \<Rightarrow> Some (10 * x + y) | _ \<Rightarrow> None)"

fun time_of_day :: "string \<Rightarrow> nat option" where
  "time_of_day [h1, h2, c, m1, m2] =
     (case (two_digits h1 h2, two_digits m1 m2) of
        (Some h, Some m) \<Rightarrow> if c = CHR 0x3A \<and> h < 24 \<and> m < 60 then Some (60 * h + m) else None
      | _ \<Rightarrow> None)"
| "time_of_day _ = None"

text \<open>
  The users that \<open>findUsersPastExpectedLoginWithoutRecord\<close> is specified to return:
  those whose expected login time of day is at most the current time of day, and who
  either have no record for today with a login time, or have a record for today whose
  login time is not set.
\<close>

definition past_expected_login :: "datetime \<Rightarrow> user_row \<Rightarrow> bool" where
  "past_expected_login now u =
     (case user_login_time u of
        None \<Rightarrow> False
      | Some t \<Rightarrow>
          (case time_of_day t of None \<Rightarrow> False | Some m \<Rightarrow> m \<le> 60 * hour now + minute now))"

definition has_login_today :: "string \<Rightarrow> db \<Rightarrow> user_row \<Rightarrow> bool" where
  "has_login_today today s u =
     list_ex
       (\<lambda>r. r Col_user_slack_id = SText (user_slack_id u) \<and> r Col_workday = SText today
            \<and> r Col_login_time \<noteq> SNull)
       (audits s)"

definition has_unset_login_today :: "string \<Rightarrow> db \<Rightarrow> user_row \<Rightarrow> bool" where
  "has_unset_login_today today s u =
     list_ex
       (\<lambda>r. r Col_user_slack_id = SText (user_slack_id u) \<and> r Col_workday = SText today
            \<and> r Col_login_time = SNull)
       (audits s)"

definition users_without_login_as_specified :: "datetime \<Rightarrow> db \<Rightarrow> user_row list" where
  "users_without_login_as_specified now s =
     filter
       (\<lambda>u. past_expected_login now u
            \<and> (\<not> has_login_today (strftime_Ymd now) s u
                \<or> has_unset_login_today (strftime_Ymd now) s u))
       (users s)"

text \<open>
  The same two conditions as the query has them: the expected login time is a text that
  is at most the text \<open>HH:MM\<close> of the clock, and \<open>NOT IN\<close> fails as soon as a record
  of today with a login time is the user's or has no user.
\<close>

definition expected_by_text :: "datetime \<Rightarrow> user_row \<Rightarrow> bool" where
  "expected_by_text now u =
     (case user_login_time u of None \<Rightarrow> False | Some t \<Rightarrow> text_le t (strftime_HM now))"

definition login_recorded_today :: "string \<Rightarrow> db \<Rightarrow> user_row \<Rightarrow> bool" where
  "login_recorded_today today s u =
     list_ex
       (\<lambda>r. (r Col_user_slack_id = SText (user_slack_id u) \<or> r Col_user_slack_id = SNull)
            \<and> r Col_workday = SText today \<and> r Col_login_time \<noteq> SNull)
       (audits s)"

text \<open>\<open>SUPERVISOR_ESCALATION_MINUTES\<close> of config.py.\<close>

definition SUPERVISOR_ESCALATION_MINUTES :: nat where
  "SUPERVISOR_ESCALATION_MINUTES = 2"

text \<open>
  "The configured escalation window has elapsed since that notification", for a stamp
  \<open>YYYY-MM-DD HH:MM...\<close> in \<open>last_supervisor_notification_time\<close>: a stamp of another
  day than today counts as elapsed, a stamp of today when the minutes since then reach
  the window.
\<close>

definition escalation_window_elapsed :: "datetime \<Rightarrow> audit_row \<Rightarrow> bool" where
  "escalation_window_elapsed now r =
     (case r Col_last_supervisor_notification_time of
        SText ts \<Rightarrow>
          if take 10 ts = strftime_Ymd now then
            (case time_of_day (take 5 (drop 11 ts)) of
               Some m \<Rightarrow> m + SUPERVISOR_ESCALATION_MINUTES \<le> 60 * hour now + minute now
             | None \<Rightarrow> False)
          else True
      | _ \<Rightarrow> False)"

text \<open>A stuck record as the specification words it.\<close>

definition stuck_as_specified :: "datetime \<Rightarrow> audit_row \<Rightarrow> bool" where
  "stuck_as_specified now r =
     (sql_gt0 (r Col_supervisor_notified)
      \<and> escalation_window_elapsed now r
      \<and> sql_eq (r Col_second_supervisor_notified) (SInt 0)
      \<and> sql_eq (r Col_is_supervisor_acknowledged) (SInt 0))"


text \<open>
  The operations of the store that are not repairs, as values, and the database each
  leaves. \<open>fix_stuck_records\<close> and \<open>manual_fix\<close> are the repairs.
\<close>

datatype store_op =
    Get_audit_record string string
  | Create_audit_record string string sqlval
  | Update_user_login string string string
  | Record_user_login datetime string
  | Record_user_logout datetime string
  | Update_audit_record sqlval "(string \<times> sqlval) list"

fun run :: "store_op \<Rightarrow> db \<Rightarrow> db" where
  "run (Get_audit_record uid workday) s = snd (get_audit_record uid workday s)"
| "run (Create_audit_record uid workday e) s = snd (create_audit_record uid workday e s)"
| "run (Update_user_login uid workday t) s = snd (update_user_login uid workday t s)"
| "run (Record_user_login now uid) s = snd (record_user_login now uid s)"
| "run (Record_user_logout now uid) s = snd (record_user_logout now uid s)"
| "run (Update_audit_record audit_id kwargs) s = snd (update_audit_record audit_id kwargs s)"

text \<open>An acknowledgment flag that is set, and a user and workday for which it is.\<close>

definition flag_set :: "sqlval \<Rightarrow> bool" where
  "flag_set v = (case v of SInt i \<Rightarrow> i \<noteq> 0 | _ \<Rightarrow> False)"

definition acknowledged :: "column \<Rightarrow> string \<Rightarrow> string \<Rightarrow> db \<Rightarrow> bool" where
  "acknowledged flag uid workday s =
     list_ex (\<lambda>r. flag_set (r flag)) (filter (for_user_workday uid workday) (audits s))"

text \<open>No record of the user and workday lacks its id: reading it starts no repair.\<close>

definition needs_no_repair :: "string \<Rightarrow> string \<Rightarrow> db \<Rightarrow> bool" where
  "needs_no_repair uid workday s =
     list_all (\<lambda>r. r Col_id \<noteq> SNull) (filter (for_user_workday uid workday) (audits s))"

text \<open>
  The field maps under which \<open>update_audit_record\<close> leaves the acknowledgment flags of
  a user and workday as set as they were: no name in them is, in any case of its letters,
  that of the id, the user or the workday of the record, and a value they give to an
  acknowledgment flag is stored as an integer that is not 0. The callers of
  \<open>update_audit_record\<close> are not among the sources at hand.
\<close>

definition keeps_acknowledgment :: "(string \<times> sqlval) list \<Rightarrow> bool" where
  "keeps_acknowledgment kwargs =
     list_all
       (\<lambda>(k, v). case column_of_name k of
            None \<Rightarrow> True
          | Some c \<Rightarrow>
              c \<noteq> Col_id \<and> c \<noteq> Col_user_slack_id \<and> c \<noteq> Col_workday
              \<and> (c = Col_is_supervisor_acknowledged \<or> c = Col_is_second_supervisor_acknowledged
                  \<longrightarrow> flag_set (stored c v)))
       kwargs"

fun normal_op :: "store_op \<Rightarrow> bool" where
  "normal_op (Update_audit_record audit_id kwargs) = keeps_acknowledgment kwargs"
| "normal_op _ = True"

text \<open>
  How the records of one user and workday may change under such an operation: row by
  row, the id stays and a flag that is set stays set.
\<close>

definition kept :: "column \<Rightarrow> audit_row list \<Rightarrow> audit_row list \<Rightarrow> bool" where
  "kept flag rows rows' \<longleftrightarrow>
     (\<exists>f. rows' = map f rows \<and> (\<forall>r. f r Col_id = r Col_id)
          \<and> (\<forall>r. flag_set (r flag) \<longrightarrow> flag_set (f r flag)))"

subsection \<open>Example databases\<close>

text \<open>
  A user expected at 09:00 and, at 09:08 on 2025-03-10, the record of the day after three
  reminders and one notification of the supervisor, sent at that minute; one unused token.
\<close>

definition ex_now :: datetime where
  "ex_now = \<lparr>year = 2025, month = 3, day = 10, hour = 9, minute = 8, second = 0\<rparr>"

definition ex_user :: user_row where
  "ex_user =
     \<lparr>user_slack_id = ''U1'', user_name = ''Ann'', user_login_time = Some ''09:00'',
      supervisor_slack_id = Some ''S1'', second_supervisor_slack_id = None,
      supervisor_email_id = None, second_supervisor_email_id = None\<rparr>"

definition ex_row :: audit_row where
  "ex_row =
     (\<lambda>c. SNull)
       (Col_id := SInt 1, Col_user_slack_id := SText ''U1'', Col_workday := SText ''2025-03-10'',
        Col_self_notified := SInt 3, Col_supervisor_notified := SInt 1,
        Col_second_supervisor_notified := SInt 0, Col_is_supervisor_acknowledged := SInt 0,
        Col_is_second_supervisor_acknowledged := SInt 0,
        Col_last_supervisor_notification_time := SText ''2025-03-10 09:08:00'',
        Col_expected_login_time := SText ''09:00'',
        Col_email_supervisor_notified := SInt 0, Col_email_second_supervisor_notified := SInt 0)"

definition ex_token :: token_row where
  "ex_token =
     \<lparr>token = ''k7'', token_user_slack_id = ''U1'', is_second_supervisor = 0,
      created_at = ''2025-03-10 09:08:00'', used = 0\<rparr>"

definition ex_db :: db where
  "ex_db =
     \<lparr>users = [ex_user], audits = [ex_row], audits_pk = True, audits_seq = 1,
      acknowledgment_tokens = [ex_token]\<rparr>"

text \<open>The same database with no record yet.\<close>

definition ex_empty :: db where
  "ex_empty = ex_db\<lparr>audits := [], audits_seq := 0\<rparr>"

text \<open>
  The table as \<open>clean_duplicate_columns\<close> leaves it, holding one row that was inserted
  afterwards: no id, two notifications of the supervisor.
\<close>

definition ex_corrupt_row :: audit_row where
  "ex_corrupt_row = ex_row (Col_id := SNull, Col_supervisor_notified := SInt 2)"

definition ex_corrupt :: db where
  "ex_corrupt = ex_db\<lparr>audits := [ex_corrupt_row], audits_pk := False\<rparr>"

text \<open>Yesterday's record, the supervisor notified and nobody having answered.\<close>

definition ex_old_row :: audit_row where
  "ex_old_row =
     ex_row (Col_workday := SText ''2025-03-09'',
             Col_last_supervisor_notification_time := SText ''2025-03-09 09:08:00'')"

text \<open>The record of the day once the supervisor has acknowledged, and a day's work of
  the store on it.\<close>

definition ex_acked :: db where
  "ex_acked = ex_db\<lparr>audits := [ex_row (Col_is_supervisor_acknowledged := SInt 1)]\<rparr>"

text \<open>
  A user added through the dashboard with the field "Login Time (HH:MM)" left empty
  (dashboard.py stores the text of the field as it is), in a database without records.
\<close>

definition ex_blank_user :: user_row where
  "ex_blank_user = ex_user\<lparr>user_slack_id := ''U2'', user_name := ''Bob'', user_login_time := Some ''''\<rparr>"

definition ex_blank :: db where
  "ex_blank = ex_empty\<lparr>users := [ex_blank_user]\<rparr>"

definition ex_ops :: "store_op list" where
  "ex_ops =
     [Get_audit_record ''U1'' ''2025-03-10'',
      Update_audit_record (SInt 1) [(''supervisor_notified'', SInt 2)],
      Update_audit_record (SInt 1) [(''IS_SUPERVISOR_ACKNOWLEDGED'', SInt 1)],
      Record_user_login ex_now ''U1'',
      Create_audit_record ''U1'' ''2025-03-10'' (SText ''09:00''),
      Record_user_logout ex_now ''U1'']"

section \<open>Properties\<close>

subsection \<open>Basic facts\<close>

lemma fetchone_simps [simp]: "fetchone [] = None" "fetchone (x # xs) = Some x"
  by (simp_all add: fetchone_def)

lemma fetchone_None_iff [simp]: "fetchone xs = None \<longleftrightarrow> xs = []"
  by (cases xs) simp_all

lemma sql_eq_refl: "sql_eq a a \<longleftrightarrow> a \<noteq> SNull"
  by (simp add: sql_eq_def)

lemma for_user_workday_iff:
  "for_user_workday uid wd r \<longleftrightarrow> r Col_user_slack_id = SText uid \<and> r Col_workday = SText wd"
  by (auto simp: for_user_workday_def sql_eq_def)

lemma delete_audits_simps [simp]:
  "audits (delete_audits uid wd s) = filter (\<lambda>r. \<not> for_user_workday uid wd r) (audits s)"
  "users (delete_audits uid wd s) = users s"
  "audits_pk (delete_audits uid wd s) = audits_pk s"
  "audits_seq (delete_audits uid wd s) = audits_seq s"
  "acknowledgment_tokens (delete_audits uid wd s) = acknowledgment_tokens s"
  by (simp_all add: delete_audits_def)

lemma insert_audits_simps [simp]:
  "audits (fst (insert_audits vals s)) = audits s @ [inserted_row vals s]"
  "users (fst (insert_audits vals s)) = users s"
  "audits_pk (fst (insert_audits vals s)) = audits_pk s"
  "audits_seq (fst (insert_audits vals s)) = next_rowid s"
  "acknowledgment_tokens (fst (insert_audits vals s)) = acknowledgment_tokens s"
  "snd (insert_audits vals s) = next_rowid s"
  by (simp_all add: insert_audits_def)

lemma inserted_new_record [simp]:
  "inserted_row (new_record uid wd e) s Col_user_slack_id = SText uid"
  "inserted_row (new_record uid wd e) s Col_workday = SText wd"
  "inserted_row (new_record uid wd e) s Col_id = (if audits_pk s then SInt (next_rowid s) else SNull)"
  by (simp_all add: inserted_row_def new_record_def column_default_def)

lemma inserted_new_record_for [simp]:
  "for_user_workday uid wd (inserted_row (new_record uid wd e) s)"
  by (simp add: for_user_workday_iff)

lemma filter_deleted [simp]:
  "filter (for_user_workday uid wd) (filter (\<lambda>r. \<not> for_user_workday uid wd r) rows) = []"
  by (induction rows) auto

lemma stored_null [simp]: "stored c SNull = SNull"
  by (simp add: stored_def)

lemma stored_eq_null [simp]: "stored c v = SNull \<longleftrightarrow> v = SNull"
  by (cases v) (simp_all add: stored_def split: option.splits)

lemma stored_text [simp]:
  "stored Col_user_slack_id (SText t) = SText t"
  "stored Col_workday (SText t) = SText t"
  "stored Col_login_time (SText t) = SText t"
  "stored Col_logout_time (SText t) = SText t"
  "stored Col_last_supervisor_notification_time (SText t) = SText t"
  "stored Col_last_second_supervisor_notification_time (SText t) = SText t"
  "stored Col_expected_login_time (SText t) = SText t"
  by (simp_all add: stored_def text_columns_def)

lemma stored_int [simp]:
  "stored Col_id (SInt i) = SInt i"
  "stored Col_self_notified (SInt i) = SInt i"
  "stored Col_supervisor_notified (SInt i) = SInt i"
  "stored Col_second_supervisor_notified (SInt i) = SInt i"
  "stored Col_is_supervisor_acknowledged (SInt i) = SInt i"
  "stored Col_is_second_supervisor_acknowledged (SInt i) = SInt i"
  "stored Col_email_supervisor_notified (SInt i) = SInt i"
  "stored Col_email_second_supervisor_notified (SInt i) = SInt i"
  by (simp_all add: stored_def text_columns_def)

lemma stored_expected_login_time [simp]:
  "stored Col_expected_login_time (user_expected_login_time uid s) = user_expected_login_time uid s"
  by (simp add: user_expected_login_time_def text_or_null_def split: option.splits)

lemma map_of_rev_None: "map_of (rev sets) c = None \<longleftrightarrow> map_of sets c = None"
  by (simp add: map_of_eq_None_iff)

lemma assign_apply:
  "assign sets r c = (case map_of (rev sets) c of Some v \<Rightarrow> stored c v | None \<Rightarrow> r c)"
  by (simp add: assign_def)

lemma assign_other: "map_of sets c = None \<Longrightarrow> assign sets r c = r c"
  using map_of_rev_None [of sets c] by (simp add: assign_apply)

lemma for_user_workday_assign:
  "map_of sets Col_user_slack_id = None \<Longrightarrow> map_of sets Col_workday = None \<Longrightarrow>
   for_user_workday uid wd (assign sets r) = for_user_workday uid wd r"
  by (simp add: for_user_workday_def assign_other)

lemma update_where_id_Nil [simp]: "update_where_id sets aid [] = []"
  by (simp add: update_where_id_def)

lemma update_where_id_Cons:
  "update_where_id sets aid (r # rows) =
     (if sql_eq (r Col_id) aid then assign sets r else r) # update_where_id sets aid rows"
  by (simp add: update_where_id_def)

lemma filter_update_where_id:
  assumes "map_of sets Col_user_slack_id = None" "map_of sets Col_workday = None"
  shows "filter (for_user_workday uid wd) (update_where_id sets aid rows) =
         update_where_id sets aid (filter (for_user_workday uid wd) rows)"
  using assms by (induction rows) (auto simp: update_where_id_def for_user_workday_assign)

text \<open>The example clock and databases, evaluated.\<close>

lemma strftime_ex [simp]:
  "strftime_Ymd ex_now = ''2025-03-10''"
  "strftime_HM ex_now = ''09:08''"
  "strftime_Ymd_HM ex_now = ''2025-03-10 09:08''"
  by (simp_all add: strftime_Ymd_def strftime_HM_def strftime_Ymd_HM_def ex_now_def
        pad2_def pad4_def digit_def)

lemma ex_now_fields [simp]: "hour ex_now = 9" "minute ex_now = 8"
  by (simp_all add: ex_now_def)

lemma ex_db_fields [simp]:
  "users ex_db = [ex_user]" "audits ex_db = [ex_row]" "audits_pk ex_db" "audits_seq ex_db = 1"
  "acknowledgment_tokens ex_db = [ex_token]"
  "users ex_empty = [ex_user]" "audits ex_empty = []" "audits_pk ex_empty"
  "users ex_corrupt = [ex_user]" "audits ex_corrupt = [ex_corrupt_row]" "\<not> audits_pk ex_corrupt"
  by (simp_all add: ex_db_def ex_empty_def ex_corrupt_def)

lemma ex_row_key [simp]:
  "for_user_workday uid wd ex_row \<longleftrightarrow> uid = ''U1'' \<and> wd = ''2025-03-10''"
  "for_user_workday uid wd ex_corrupt_row \<longleftrightarrow> uid = ''U1'' \<and> wd = ''2025-03-10''"
  "ex_row Col_id = SInt 1" "ex_corrupt_row Col_id = SNull"
  by (auto simp: for_user_workday_iff ex_row_def ex_corrupt_row_def)

subsection \<open>Acknowledgment tokens are consumed once\<close>

lemma get_after_mark:
  assumes "get_acknowledgment_token tok s = Some td"
  shows "get_acknowledgment_token tok (snd (mark_token_used tok s)) = Some (td\<lparr>used := 1\<rparr>)"
proof -
  have "fetchone (filter (\<lambda>t. token t = tok)
          (map (\<lambda>t. if token t = tok then t\<lparr>used := 1\<rparr> else t) xs)) = Some (td\<lparr>used := 1\<rparr>)"
    if "fetchone (filter (\<lambda>t. token t = tok) xs) = Some td" for xs
    using that by (induction xs) (auto split: if_splits)
  with assms show ?thesis
    by (simp add: get_acknowledgment_token_def mark_token_used_def)
qed

lemma get_after_store:
  assumes "store_acknowledgment_token tok uid b ts s0 = (True, s)"
  shows "get_acknowledgment_token tok s =
           Some \<lparr>token = tok, token_user_slack_id = uid,
                 is_second_supervisor = (if b then 1 else 0), created_at = ts, used = 0\<rparr>"
proof -
  have none: "\<not> list_ex (\<lambda>t. token t = tok) (acknowledgment_tokens s0)"
    using assms by (auto simp: store_acknowledgment_token_def split: if_splits)
  then have "filter (\<lambda>t. token t = tok) (acknowledgment_tokens s0) = []"
    by (induction "acknowledgment_tokens s0") (auto simp: list_ex_iff filter_empty_conv)
  with assms none show ?thesis
    by (auto simp: store_acknowledgment_token_def get_acknowledgment_token_def)
qed

text \<open>The source functions on their own: \<open>get_acknowledgment_token\<close> also returns a used
  token, and \<open>mark_token_used\<close> answers \<open>True\<close> for a token that was never stored. The
  check of \<open>used\<close> is the caller's.\<close>

lemma mark_token_used_unknown:
  "get_acknowledgment_token tok s = None \<Longrightarrow> mark_token_used tok s = (True, s)"
proof -
  assume "get_acknowledgment_token tok s = None"
  then have "filter (\<lambda>t. token t = tok) (acknowledgment_tokens s) = []"
    by (simp add: get_acknowledgment_token_def)
  then have "map (\<lambda>t. if token t = tok then t\<lparr>used := 1\<rparr> else t) (acknowledgment_tokens s)
             = acknowledgment_tokens s"
    by (induction "acknowledgment_tokens s") (auto simp: filter_empty_conv map_idI)
  then show ?thesis by (simp add: mark_token_used_def)
qed

text \<open>
  C1. A token that is stored and unused is consumed exactly once: the first
  \<open>validate_and_consume\<close> returns its payload (the user and the supervisor tier) and
  leaves it marked used; the second returns \<open>Invalid\<close> and changes nothing; a token
  that was never stored is \<open>Invalid\<close>. A token just stored by
  \<open>store_acknowledgment_token\<close> is such an unused token, with the payload it was
  stored with.
\<close>

theorem validate_and_consume_once:
  "(get_acknowledgment_token tok s = Some td \<and> used td = 0 \<longrightarrow>
      validate_and_consume tok s =
        (Payload (token_user_slack_id td) (is_second_supervisor td \<noteq> 0),
         snd (mark_token_used tok s))
      \<and> get_acknowledgment_token tok (snd (validate_and_consume tok s)) = Some (td\<lparr>used := 1\<rparr>)
      \<and> validate_and_consume tok (snd (validate_and_consume tok s)) =
          (Invalid, snd (validate_and_consume tok s)))
   \<and> (get_acknowledgment_token tok s = None \<longrightarrow> validate_and_consume tok s = (Invalid, s))
   \<and> (store_acknowledgment_token tok uid b ts s0 = (True, s) \<longrightarrow>
        fst (validate_and_consume tok s) = Payload uid b)"
proof (intro conjI impI)
  assume a: "get_acknowledgment_token tok s = Some td \<and> used td = 0"
  show first: "validate_and_consume tok s =
        (Payload (token_user_slack_id td) (is_second_supervisor td \<noteq> 0),
         snd (mark_token_used tok s))"
    using a by (simp add: validate_and_consume_def mark_token_used_def)
  have after: "get_acknowledgment_token tok (snd (mark_token_used tok s)) = Some (td\<lparr>used := 1\<rparr>)"
    using a get_after_mark by blast
  show "get_acknowledgment_token tok (snd (validate_and_consume tok s)) = Some (td\<lparr>used := 1\<rparr>)"
    using first after by simp
  show "validate_and_consume tok (snd (validate_and_consume tok s)) =
          (Invalid, snd (validate_and_consume tok s))"
    using first after by (simp add: validate_and_consume_def)
next
  assume "get_acknowledgment_token tok s = None"
  then show "validate_and_consume tok s = (Invalid, s)"
    by (simp add: validate_and_consume_def)
next
  assume "store_acknowledgment_token tok uid b ts s0 = (True, s)"
  from get_after_store [OF this] show "fst (validate_and_consume tok s) = Payload uid b"
    by (simp add: validate_and_consume_def mark_token_used_def)
qed

theorem validate_and_consume_once_witness:
  "get_acknowledgment_token ''k7'' ex_db = Some ex_token \<and> used ex_token = 0
   \<and> token_user_slack_id ex_token = ''U1'' \<and> is_second_supervisor ex_token = 0
   \<and> validate_and_consume ''k7'' ex_db =
       (Payload (token_user_slack_id ex_token) (is_second_supervisor ex_token \<noteq> 0),
        snd (mark_token_used ''k7'' ex_db))
   \<and> validate_and_consume ''k7'' (snd (validate_and_consume ''k7'' ex_db)) =
       (Invalid, snd (validate_and_consume ''k7'' ex_db))
   \<and> get_acknowledgment_token ''zz'' ex_db = None
   \<and> validate_and_consume ''zz'' ex_db = (Invalid, ex_db)
   \<and> store_acknowledgment_token ''n1'' ''U1'' True ''2025-03-10 09:10:00'' ex_db =
       (True, snd (store_acknowledgment_token ''n1'' ''U1'' True ''2025-03-10 09:10:00'' ex_db))
   \<and> fst (validate_and_consume ''n1''
         (snd (store_acknowledgment_token ''n1'' ''U1'' True ''2025-03-10 09:10:00'' ex_db))) =
       Payload ''U1'' True"
proof -
  have h1: "get_acknowledgment_token ''k7'' ex_db = Some ex_token \<and> used ex_token = 0"
    by (simp add: get_acknowledgment_token_def ex_token_def)
  have h2: "get_acknowledgment_token ''zz'' ex_db = None"
    by (simp add: get_acknowledgment_token_def ex_token_def)
  have h3: "store_acknowledgment_token ''n1'' ''U1'' True ''2025-03-10 09:10:00'' ex_db =
       (True, snd (store_acknowledgment_token ''n1'' ''U1'' True ''2025-03-10 09:10:00'' ex_db))"
    by (simp add: store_acknowledgment_token_def ex_token_def)
  note stored_db = validate_and_consume_once
    [where tok = "''k7''" and s = ex_db and td = ex_token and uid = "''U1''" and b = False
       and ts = "[]" and ?s0.0 = ex_db]
  note unknown = validate_and_consume_once
    [where tok = "''zz''" and s = ex_db and td = ex_token and uid = "''U1''" and b = False
       and ts = "[]" and ?s0.0 = ex_db]
  note fresh = validate_and_consume_once
    [where tok = "''n1''" and uid = "''U1''" and b = True and td = ex_token
       and ts = "''2025-03-10 09:10:00''" and ?s0.0 = ex_db
       and s = "snd (store_acknowledgment_token ''n1'' ''U1'' True ''2025-03-10 09:10:00'' ex_db)"]
  have c0: "token_user_slack_id ex_token = ''U1'' \<and> is_second_supervisor ex_token = 0"
    by (simp add: ex_token_def)
  have c1: "validate_and_consume ''k7'' ex_db =
       (Payload (token_user_slack_id ex_token) (is_second_supervisor ex_token \<noteq> 0),
        snd (mark_token_used ''k7'' ex_db))
      \<and> validate_and_consume ''k7'' (snd (validate_and_consume ''k7'' ex_db)) =
          (Invalid, snd (validate_and_consume ''k7'' ex_db))"
    using stored_db h1 by blast
  have c2: "validate_and_consume ''zz'' ex_db = (Invalid, ex_db)"
    using unknown h2 by blast
  have c3: "fst (validate_and_consume ''n1''
         (snd (store_acknowledgment_token ''n1'' ''U1'' True ''2025-03-10 09:10:00'' ex_db))) =
       Payload ''U1'' True"
    using fresh h3 by blast
  show ?thesis
    using h1 h2 h3 c0 c1 c2 c3 by blast
qed

subsection \<open>Creating the record of a day is idempotent\<close>

lemma ex_empty_seq [simp]: "audits_seq ex_empty = 0"
  by (simp add: ex_empty_def)

lemma max_id_Nil [simp]: "max_id [] = 0"
  by (simp add: max_id_def)

text \<open>Where the table has lost its primary key, a record that is missing cannot be
  created: the row reads back without an id and the source raises after the rollback.\<close>

lemma create_audit_record_raises:
  "\<not> audits_pk s \<Longrightarrow> filter (for_user_workday uid wd) (audits s) = [] \<Longrightarrow>
   create_audit_record uid wd e s = (Inl Failed_to_create_audit_record, s)"
  by (simp add: create_audit_record_def Let_def split_beta)

text \<open>
  C2. Whenever \<open>create_audit_record\<close> returns an id (it always does where \<open>id\<close> is
  the auto-assigned key of the table), a second call for the same user and workday
  returns the same id and leaves the database as it is; and if at most one record
  existed for the user and workday before, exactly one exists after.
\<close>

theorem create_audit_record_idempotent:
  "(audits_pk s \<longrightarrow> (\<exists>i. fst (create_audit_record uid wd e s) = Inr i))
   \<and> (create_audit_record uid wd e s = (Inr i, s1) \<longrightarrow>
        create_audit_record uid wd e' s1 = (Inr i, s1)
        \<and> (length (filter (for_user_workday uid wd) (audits s)) \<le> 1 \<longrightarrow>
             length (filter (for_user_workday uid wd) (audits s1)) = 1))"
proof (intro conjI impI)
  assume "audits_pk s"
  then show "\<exists>i. fst (create_audit_record uid wd e s) = Inr i"
    by (auto simp: create_audit_record_def Let_def split_beta split: option.splits)
next
  assume c: "create_audit_record uid wd e s = (Inr i, s1)"
  show "create_audit_record uid wd e' s1 = (Inr i, s1)"
  proof (cases "filter (for_user_workday uid wd) (audits s)")
    case Nil
    with c show ?thesis
      by (auto simp: create_audit_record_def Let_def split_beta split: if_splits)
  next
    case (Cons r rs)
    with c show ?thesis
      by (auto simp: create_audit_record_def Let_def split_beta split: if_splits)
  qed
next
  assume c: "create_audit_record uid wd e s = (Inr i, s1)"
    and one: "length (filter (for_user_workday uid wd) (audits s)) \<le> 1"
  show "length (filter (for_user_workday uid wd) (audits s1)) = 1"
  proof (cases "filter (for_user_workday uid wd) (audits s)")
    case Nil
    with c show ?thesis
      by (auto simp: create_audit_record_def Let_def split_beta split: if_splits)
  next
    case (Cons r rs)
    with c one show ?thesis
      by (auto simp: create_audit_record_def Let_def split_beta split: if_splits)
  qed
qed

theorem create_audit_record_idempotent_witness:
  "audits_pk ex_empty
   \<and> create_audit_record ''U1'' ''2025-03-10'' (SText ''09:00'') ex_empty =
       (Inr (SInt 1), snd (create_audit_record ''U1'' ''2025-03-10'' (SText ''09:00'') ex_empty))
   \<and> create_audit_record ''U1'' ''2025-03-10'' (SText ''09:00'')
         (snd (create_audit_record ''U1'' ''2025-03-10'' (SText ''09:00'') ex_empty)) =
       (Inr (SInt 1), snd (create_audit_record ''U1'' ''2025-03-10'' (SText ''09:00'') ex_empty))
   \<and> length (filter (for_user_workday ''U1'' ''2025-03-10'') (audits ex_empty)) \<le> 1
   \<and> length (filter (for_user_workday ''U1'' ''2025-03-10'')
         (audits (snd (create_audit_record ''U1'' ''2025-03-10'' (SText ''09:00'') ex_empty)))) = 1"
proof -
  have h1: "audits_pk ex_empty" by simp
  have "fst (create_audit_record ''U1'' ''2025-03-10'' (SText ''09:00'') ex_empty) = Inr (SInt 1)"
    by (simp add: create_audit_record_def Let_def split_beta next_rowid_def)
  then have h2: "create_audit_record ''U1'' ''2025-03-10'' (SText ''09:00'') ex_empty =
       (Inr (SInt 1), snd (create_audit_record ''U1'' ''2025-03-10'' (SText ''09:00'') ex_empty))"
    by (metis prod.collapse)
  have h3: "length (filter (for_user_workday ''U1'' ''2025-03-10'') (audits ex_empty)) \<le> 1"
    by simp
  note inst = create_audit_record_idempotent
    [where s = ex_empty and uid = "''U1''" and wd = "''2025-03-10''" and e = "SText ''09:00''"
       and e' = "SText ''09:00''" and i = "SInt 1"
       and ?s1.0 = "snd (create_audit_record ''U1'' ''2025-03-10'' (SText ''09:00'') ex_empty)"]
  show ?thesis
    using h1 h2 h3 inst by blast
qed

subsection \<open>Recording a login or a logout: upsert, then verification\<close>

text \<open>A record without an id cannot take a login: the UPDATE by id matches nothing, the
  value read back differs, and the function answers \<open>False\<close> after the rollback.\<close>

lemma update_user_login_no_id:
  assumes "filter (for_user_workday uid wd) (audits s) = r # rs"
    and "r Col_id = SNull" and "r Col_login_time \<noteq> SText t"
  shows "update_user_login uid wd t s = (False, s)"
  using assms
  by (simp add: update_user_login_def Let_def filter_update_where_id update_where_id_Cons sql_eq_def)

text \<open>
  C3. \<open>update_user_login\<close> and \<open>record_user_logout\<close> are upserts that verify what
  they wrote. With no record for the user and workday, one is inserted that carries the
  timestamp, and the call succeeds; with a record that has an id, its field is set to
  the timestamp, and the call succeeds. A call answers \<open>True\<close> only when the value
  stored for the user and workday in the database it leaves equals the timestamp, and
  a call that answers \<open>False\<close> leaves the database it was called on.
\<close>

theorem login_logout_upsert_verified:
  "(filter (for_user_workday uid wd) (audits s) = [] \<longrightarrow>
      update_user_login uid wd t s =
        (True, fst (insert_audits
           ((Col_login_time, SText t) # new_record uid wd (user_expected_login_time uid s)) s)))
   \<and> (fetchone (map (\<lambda>r. r Col_id) (filter (for_user_workday uid wd) (audits s))) = Some aid
        \<and> aid \<noteq> SNull \<longrightarrow>
        update_user_login uid wd t s =
          (True, s\<lparr>audits := update_where_id [(Col_login_time, SText t)] aid (audits s)\<rparr>))
   \<and> (fst (update_user_login uid wd t s) \<longrightarrow>
        fetchone (map (\<lambda>r. r Col_login_time)
          (filter (for_user_workday uid wd) (audits (snd (update_user_login uid wd t s))))) =
        Some (SText t))
   \<and> (\<not> fst (update_user_login uid wd t s) \<longrightarrow> snd (update_user_login uid wd t s) = s)
   \<and> (filter (for_user_workday uid (strftime_Ymd now)) (audits s) = [] \<longrightarrow>
        record_user_logout now uid s =
          (True, fst (insert_audits
             ((Col_logout_time, SText (strftime_Ymd_HM now))
              # new_record uid (strftime_Ymd now) (user_expected_login_time uid s)) s)))
   \<and> (fetchone (map (\<lambda>r. r Col_id) (filter (for_user_workday uid (strftime_Ymd now)) (audits s))) =
          Some aid \<and> aid \<noteq> SNull \<longrightarrow>
        record_user_logout now uid s =
          (True, s\<lparr>audits :=
             update_where_id [(Col_logout_time, SText (strftime_Ymd_HM now))] aid (audits s)\<rparr>))
   \<and> (fst (record_user_logout now uid s) \<longrightarrow>
        fetchone (map (\<lambda>r. r Col_logout_time)
          (filter (for_user_workday uid (strftime_Ymd now))
             (audits (snd (record_user_logout now uid s))))) =
        Some (SText (strftime_Ymd_HM now)))
   \<and> (\<not> fst (record_user_logout now uid s) \<longrightarrow> snd (record_user_logout now uid s) = s)"
proof (intro conjI impI)
  assume "filter (for_user_workday uid wd) (audits s) = []"
  then show "update_user_login uid wd t s =
        (True, fst (insert_audits
           ((Col_login_time, SText t) # new_record uid wd (user_expected_login_time uid s)) s))"
    by (simp add: update_user_login_def Let_def inserted_row_def new_record_def for_user_workday_iff)
next
  assume a: "fetchone (map (\<lambda>r. r Col_id) (filter (for_user_workday uid wd) (audits s))) = Some aid
        \<and> aid \<noteq> SNull"
  then obtain r rs where rows: "filter (for_user_workday uid wd) (audits s) = r # rs"
    and rid: "r Col_id = aid"
    by (cases "filter (for_user_workday uid wd) (audits s)") auto
  show "update_user_login uid wd t s =
          (True, s\<lparr>audits := update_where_id [(Col_login_time, SText t)] aid (audits s)\<rparr>)"
    using a rows rid
    by (simp add: update_user_login_def Let_def filter_update_where_id update_where_id_Cons
          sql_eq_refl assign_apply)
next
  assume "fst (update_user_login uid wd t s)"
  then show "fetchone (map (\<lambda>r. r Col_login_time)
          (filter (for_user_workday uid wd) (audits (snd (update_user_login uid wd t s))))) =
        Some (SText t)"
    by (simp add: update_user_login_def Let_def split: if_splits)
next
  assume "\<not> fst (update_user_login uid wd t s)"
  then show "snd (update_user_login uid wd t s) = s"
    by (simp add: update_user_login_def Let_def split: if_splits)
next
  assume "filter (for_user_workday uid (strftime_Ymd now)) (audits s) = []"
  then show "record_user_logout now uid s =
          (True, fst (insert_audits
             ((Col_logout_time, SText (strftime_Ymd_HM now))
              # new_record uid (strftime_Ymd now) (user_expected_login_time uid s)) s))"
    by (simp add: record_user_logout_def Let_def inserted_row_def new_record_def for_user_workday_iff)
next
  assume a: "fetchone (map (\<lambda>r. r Col_id) (filter (for_user_workday uid (strftime_Ymd now)) (audits s))) =
          Some aid \<and> aid \<noteq> SNull"
  then obtain r rs where rows: "filter (for_user_workday uid (strftime_Ymd now)) (audits s) = r # rs"
    and rid: "r Col_id = aid"
    by (cases "filter (for_user_workday uid (strftime_Ymd now)) (audits s)") auto
  show "record_user_logout now uid s =
          (True, s\<lparr>audits :=
             update_where_id [(Col_logout_time, SText (strftime_Ymd_HM now))] aid (audits s)\<rparr>)"
    using a rows rid
    by (simp add: record_user_logout_def Let_def filter_update_where_id update_where_id_Cons
          sql_eq_refl assign_apply)
next
  assume "fst (record_user_logout now uid s)"
  then show "fetchone (map (\<lambda>r. r Col_logout_time)
          (filter (for_user_workday uid (strftime_Ymd now))
             (audits (snd (record_user_logout now uid s))))) =
        Some (SText (strftime_Ymd_HM now))"
    by (simp add: record_user_logout_def Let_def split: if_splits)
next
  assume "\<not> fst (record_user_logout now uid s)"
  then show "snd (record_user_logout now uid s) = s"
    by (simp add: record_user_logout_def Let_def split: if_splits)
qed

theorem login_logout_upsert_verified_witness:
  "filter (for_user_workday ''U1'' (strftime_Ymd ex_now)) (audits ex_empty) = []
   \<and> update_user_login ''U1'' (strftime_Ymd ex_now) ''2025-03-10 09:08'' ex_empty =
       (True, fst (insert_audits
          ((Col_login_time, SText ''2025-03-10 09:08'')
           # new_record ''U1'' (strftime_Ymd ex_now) (user_expected_login_time ''U1'' ex_empty)) ex_empty))
   \<and> record_user_logout ex_now ''U1'' ex_empty =
       (True, fst (insert_audits
          ((Col_logout_time, SText (strftime_Ymd_HM ex_now))
           # new_record ''U1'' (strftime_Ymd ex_now) (user_expected_login_time ''U1'' ex_empty)) ex_empty))
   \<and> fetchone (map (\<lambda>r. r Col_id) (filter (for_user_workday ''U1'' (strftime_Ymd ex_now)) (audits ex_db))) =
       Some (SInt 1)
   \<and> update_user_login ''U1'' (strftime_Ymd ex_now) ''2025-03-10 09:08'' ex_db =
       (True, ex_db\<lparr>audits :=
          update_where_id [(Col_login_time, SText ''2025-03-10 09:08'')] (SInt 1) (audits ex_db)\<rparr>)
   \<and> record_user_logout ex_now ''U1'' ex_db =
       (True, ex_db\<lparr>audits :=
          update_where_id [(Col_logout_time, SText (strftime_Ymd_HM ex_now))] (SInt 1) (audits ex_db)\<rparr>)
   \<and> fst (update_user_login ''U1'' (strftime_Ymd ex_now) ''2025-03-10 09:08'' ex_db)
   \<and> fetchone (map (\<lambda>r. r Col_login_time)
        (filter (for_user_workday ''U1'' (strftime_Ymd ex_now))
           (audits (snd (update_user_login ''U1'' (strftime_Ymd ex_now) ''2025-03-10 09:08'' ex_db))))) =
       Some (SText ''2025-03-10 09:08'')
   \<and> fst (record_user_logout ex_now ''U1'' ex_db)
   \<and> fetchone (map (\<lambda>r. r Col_logout_time)
        (filter (for_user_workday ''U1'' (strftime_Ymd ex_now))
           (audits (snd (record_user_logout ex_now ''U1'' ex_db))))) =
       Some (SText (strftime_Ymd_HM ex_now))
   \<and> \<not> fst (update_user_login ''U1'' (strftime_Ymd ex_now) ''2025-03-10 09:08'' ex_corrupt)
   \<and> snd (update_user_login ''U1'' (strftime_Ymd ex_now) ''2025-03-10 09:08'' ex_corrupt) = ex_corrupt
   \<and> \<not> fst (record_user_logout ex_now ''U1'' ex_corrupt)
   \<and> snd (record_user_logout ex_now ''U1'' ex_corrupt) = ex_corrupt"
proof -
  have h1: "filter (for_user_workday ''U1'' (strftime_Ymd ex_now)) (audits ex_empty) = []"
    by simp
  have h2: "fetchone (map (\<lambda>r. r Col_id)
      (filter (for_user_workday ''U1'' (strftime_Ymd ex_now)) (audits ex_db))) = Some (SInt 1)"
    by simp
  have h3: "SInt 1 \<noteq> SNull" by simp
  have rows: "filter (for_user_workday ''U1'' (strftime_Ymd ex_now)) (audits ex_corrupt) =
      ex_corrupt_row # []"
    by simp
  have h4: "\<not> fst (update_user_login ''U1'' (strftime_Ymd ex_now) ''2025-03-10 09:08'' ex_corrupt)"
    using update_user_login_no_id [OF rows, of "''2025-03-10 09:08''"]
    by (simp add: ex_corrupt_row_def ex_row_def)
  have h5: "\<not> fst (record_user_logout ex_now ''U1'' ex_corrupt)"
    by (simp add: record_user_logout_def Let_def filter_update_where_id update_where_id_Cons
          sql_eq_def ex_corrupt_row_def ex_row_def for_user_workday_iff)
  note empty = login_logout_upsert_verified
    [where s = ex_empty and uid = "''U1''" and wd = "strftime_Ymd ex_now"
       and t = "''2025-03-10 09:08''" and now = ex_now and aid = "SInt 1"]
  note present = login_logout_upsert_verified
    [where s = ex_db and uid = "''U1''" and wd = "strftime_Ymd ex_now"
       and t = "''2025-03-10 09:08''" and now = ex_now and aid = "SInt 1"]
  note corrupt = login_logout_upsert_verified
    [where s = ex_corrupt and uid = "''U1''" and wd = "strftime_Ymd ex_now"
       and t = "''2025-03-10 09:08''" and now = ex_now and aid = "SInt 1"]
  have c1: "update_user_login ''U1'' (strftime_Ymd ex_now) ''2025-03-10 09:08'' ex_empty =
       (True, fst (insert_audits
          ((Col_login_time, SText ''2025-03-10 09:08'')
           # new_record ''U1'' (strftime_Ymd ex_now) (user_expected_login_time ''U1'' ex_empty)) ex_empty))"
    using empty h1 by blast
  have c2: "record_user_logout ex_now ''U1'' ex_empty =
       (True, fst (insert_audits
          ((Col_logout_time, SText (strftime_Ymd_HM ex_now))
           # new_record ''U1'' (strftime_Ymd ex_now) (user_expected_login_time ''U1'' ex_empty)) ex_empty))"
    using empty h1 by blast
  have c3: "update_user_login ''U1'' (strftime_Ymd ex_now) ''2025-03-10 09:08'' ex_db =
       (True, ex_db\<lparr>audits :=
          update_where_id [(Col_login_time, SText ''2025-03-10 09:08'')] (SInt 1) (audits ex_db)\<rparr>)"
    using present h2 h3 by blast
  have c4: "record_user_logout ex_now ''U1'' ex_db =
       (True, ex_db\<lparr>audits :=
          update_where_id [(Col_logout_time, SText (strftime_Ymd_HM ex_now))] (SInt 1) (audits ex_db)\<rparr>)"
    using present h2 h3 by blast
  have c5: "fst (update_user_login ''U1'' (strftime_Ymd ex_now) ''2025-03-10 09:08'' ex_db)"
    using c3 by simp
  have c6: "fst (record_user_logout ex_now ''U1'' ex_db)"
    using c4 by simp
  have c7: "fetchone (map (\<lambda>r. r Col_login_time)
        (filter (for_user_workday ''U1'' (strftime_Ymd ex_now))
           (audits (snd (update_user_login ''U1'' (strftime_Ymd ex_now) ''2025-03-10 09:08'' ex_db))))) =
       Some (SText ''2025-03-10 09:08'')"
    using present c5 by blast
  have c8: "fetchone (map (\<lambda>r. r Col_logout_time)
        (filter (for_user_workday ''U1'' (strftime_Ymd ex_now))
           (audits (snd (record_user_logout ex_now ''U1'' ex_db))))) =
       Some (SText (strftime_Ymd_HM ex_now))"
    using present c6 by blast
  have c9: "snd (update_user_login ''U1'' (strftime_Ymd ex_now) ''2025-03-10 09:08'' ex_corrupt) = ex_corrupt"
    using corrupt h4 by blast
  have c10: "snd (record_user_logout ex_now ''U1'' ex_corrupt) = ex_corrupt"
    using corrupt h5 by blast
  show ?thesis
    using h1 h2 h4 h5 c1 c2 c3 c4 c5 c6 c7 c8 c9 c10 by blast
qed

subsection \<open>update\_audit\_record with no field\<close>

text \<open>
  C10. With an empty field map \<open>update_audit_record\<close> returns at once with no value
  (neither \<open>True\<close> nor \<open>False\<close>), whatever the record id, and the database is the one
  it was called on; the truth value of the result is that of the failure result.
\<close>

theorem update_audit_record_empty:
  "update_audit_record audit_id [] s = (None, s)
   \<and> fst (update_audit_record audit_id [] s) \<noteq> Some True
   \<and> fst (update_audit_record audit_id [] s) \<noteq> Some False
   \<and> truthy (fst (update_audit_record audit_id [] s)) = truthy (Some False)"
  by (simp add: update_audit_record_def truthy_def)

subsection \<open>update\_audit\_record: what fails, and what success means\<close>

lemma column_names:
  "column_of_name ''id'' = Some Col_id"
  "column_of_name ''user_slack_id'' = Some Col_user_slack_id"
  "column_of_name ''workday'' = Some Col_workday"
  "column_of_name ''login_time'' = Some Col_login_time"
  "column_of_name ''supervisor_notified'' = Some Col_supervisor_notified"
  "column_of_name ''is_supervisor_acknowledged'' = Some Col_is_supervisor_acknowledged"
  "column_of_name ''IS_SUPERVISOR_ACKNOWLEDGED'' = Some Col_is_supervisor_acknowledged"
  by (simp_all add: column_of_name_def audits_columns_def ascii_lower_def)


lemma those_map_list_all2:
  "those (map f xs) = Some ys \<Longrightarrow> list_all2 (\<lambda>x y. f x = Some y) xs ys"
  by (induction xs arbitrary: ys) (auto split: option.splits)

lemma resolve_list_all2:
  "resolve kwargs = Some sets \<Longrightarrow>
   list_all2 (\<lambda>kv cv. column_of_name (fst kv) = Some (fst cv) \<and> snd cv = snd kv) kwargs sets"
proof -
  assume "resolve kwargs = Some sets"
  then have "list_all2 (\<lambda>x y. (\<lambda>(k, v). map_option (\<lambda>c. (c, v)) (column_of_name k)) x = Some y) kwargs sets"
    unfolding resolve_def by (rule those_map_list_all2)
  then show ?thesis
    by (rule list_all2_mono) auto
qed

lemma resolved_member:
  assumes "list_all2 (\<lambda>kv cv. column_of_name (fst kv) = Some (fst cv) \<and> snd cv = snd kv) kwargs sets"
    and "(c, v) \<in> set sets"
  shows "\<exists>k. (k, v) \<in> set kwargs \<and> column_of_name k = Some c"
  using assms
proof (induction kwargs sets rule: list_all2_induct)
  case Nil
  then show ?case by simp
next
  case (Cons kv kwargs cv sets)
  then show ?case
    by (cases kv; cases cv) auto
qed

lemma resolved_source:
  assumes "list_all2 (\<lambda>kv cv. column_of_name (fst kv) = Some (fst cv) \<and> snd cv = snd kv) kwargs sets"
    and "map_of (rev sets) c = Some v"
  shows "\<exists>k. (k, v) \<in> set kwargs \<and> column_of_name k = Some c"
proof -
  from map_of_SomeD [OF assms(2)] have "(c, v) \<in> set sets" by simp
  with assms(1) show ?thesis by (rule resolved_member)
qed



lemma fetchone_filter_mem: "fetchone (filter P xs) = Some x \<Longrightarrow> x \<in> set xs \<and> P x"
proof -
  assume a: "fetchone (filter P xs) = Some x"
  then obtain ys where "filter P xs = x # ys"
    by (cases "filter P xs") auto
  then have "x \<in> set (filter P xs)" by simp
  then show ?thesis by simp
qed


lemma filter_Nil_list_ex: "filter P xs = [] \<longleftrightarrow> \<not> list_ex P xs"
  by (simp add: filter_empty_conv list_ex_iff)

lemma fetchone_Some_list_ex: "fetchone (filter P xs) = Some x \<Longrightarrow> list_ex P xs"
  using fetchone_filter_mem [of P xs x] by (auto simp: list_ex_iff)



lemma update_audit_record_cases:
  assumes "kwargs \<noteq> []"
  shows "update_audit_record audit_id kwargs s =
     (if audit_id \<noteq> SNull
         \<and> (\<exists>sets. resolve kwargs = Some sets
               \<and> \<not> (audits_pk s \<and> not_null_violated sets (stored Col_id audit_id) (audits s))
               \<and> list_ex (\<lambda>r. sql_eq (r Col_id) (stored Col_id audit_id))
                    (update_where_id sets (stored Col_id audit_id) (audits s)))
      then (Some True,
            s\<lparr>audits := update_where_id (the (resolve kwargs)) (stored Col_id audit_id) (audits s)\<rparr>)
      else (Some False, s))"
  using assms
  by (cases kwargs)
     (auto simp: update_audit_record_def Let_def filter_Nil_list_ex split: option.splits
        dest: fetchone_Some_list_ex)

lemma update_audit_record_success:
  assumes "kwargs \<noteq> []" and "fst (update_audit_record audit_id kwargs s) = Some True"
  shows "\<exists>sets. resolve kwargs = Some sets
     \<and> snd (update_audit_record audit_id kwargs s) =
         s\<lparr>audits := update_where_id sets (stored Col_id audit_id) (audits s)\<rparr>
     \<and> list_ex (\<lambda>r. sql_eq (r Col_id) (stored Col_id audit_id))
          (update_where_id sets (stored Col_id audit_id) (audits s))"
  using assms(2) by (auto simp: update_audit_record_cases [OF assms(1)] split: if_splits)

lemma update_audit_record_failure:
  assumes "kwargs \<noteq> []" and "fst (update_audit_record audit_id kwargs s) \<noteq> Some True"
  shows "update_audit_record audit_id kwargs s = (Some False, s)"
  using assms(2) by (auto simp: update_audit_record_cases [OF assms(1)] split: if_splits)




subsection \<open>A login time written by update\_audit\_record is the one read\<close>

lemma resolve_login_time:
  "resolve [(''login_time'', x)] = Some [(Col_login_time, x)]"
  by (simp add: resolve_def column_names)

text \<open>
  C9. When \<open>update_audit_record\<close> succeeds in writing a login time to the record with
  a given id, and that record is the record of its user and workday, the
  \<open>get_audit_record\<close> that follows returns that record with exactly this login time,
  and changes nothing. The login time read is what the column stores for the value
  written: a timestamp, which is a text, is read as it was written (and so is NULL).
\<close>

theorem update_then_get_login_time:
  assumes "update_audit_record (SInt i) [(''login_time'', x)] s = (Some True, s1)"
    and "filter (for_user_workday uid wd) (audits s) = [r]" and "r Col_id = SInt i"
  shows "\<exists>record_dict. get_audit_record uid wd s1 = (Some record_dict, s1)
           \<and> record_dict Col_login_time = stored Col_login_time x
           \<and> (x = SNull \<or> x = SText t \<longrightarrow> record_dict Col_login_time = x)
           \<and> record_dict Col_id = SInt i"
proof -
  have ne: "[(''login_time'', x)] \<noteq> []" by simp
  have s1: "s1 = s\<lparr>audits := update_where_id [(Col_login_time, x)] (SInt i) (audits s)\<rparr>"
    using assms(1) by (auto simp: update_audit_record_cases [OF ne] resolve_login_time split: if_splits)
  have rows: "filter (for_user_workday uid wd) (audits s1) = [assign [(Col_login_time, x)] r]"
    using assms(2,3) by (simp add: s1 filter_update_where_id update_where_id_Cons sql_eq_def)
  have same: "stored Col_login_time x = x" if "x = SNull \<or> x = SText t"
    using that by auto
  show ?thesis
    using rows assms(3) same by (simp add: get_audit_record_def Let_def assign_apply)
qed

theorem update_then_get_login_time_witness:
  "update_audit_record (SInt 1) [(''login_time'', SText ''2025-03-10 09:12'')] ex_db =
     (Some True, snd (update_audit_record (SInt 1) [(''login_time'', SText ''2025-03-10 09:12'')] ex_db))
   \<and> filter (for_user_workday ''U1'' ''2025-03-10'') (audits ex_db) = [ex_row]
   \<and> ex_row Col_id = SInt 1
   \<and> (\<exists>record_dict.
         get_audit_record ''U1'' ''2025-03-10''
           (snd (update_audit_record (SInt 1) [(''login_time'', SText ''2025-03-10 09:12'')] ex_db)) =
         (Some record_dict,
          snd (update_audit_record (SInt 1) [(''login_time'', SText ''2025-03-10 09:12'')] ex_db))
         \<and> record_dict Col_login_time = SText ''2025-03-10 09:12''
         \<and> record_dict Col_id = SInt 1)"
proof -
  have "fst (update_audit_record (SInt 1) [(''login_time'', SText ''2025-03-10 09:12'')] ex_db) =
      Some True"
    by (simp add: update_audit_record_def resolve_def column_names
          not_null_violated_def update_where_id_Cons sql_eq_def assign_apply Let_def)
  then have h1: "update_audit_record (SInt 1) [(''login_time'', SText ''2025-03-10 09:12'')] ex_db =
     (Some True, snd (update_audit_record (SInt 1) [(''login_time'', SText ''2025-03-10 09:12'')] ex_db))"
    by (metis prod.collapse)
  have h2: "filter (for_user_workday ''U1'' ''2025-03-10'') (audits ex_db) = [ex_row]"
    by simp
  have h3: "ex_row Col_id = SInt 1" by simp
  from update_then_get_login_time [OF h1 h2 h3, where t = "''2025-03-10 09:12''"] h1 h2 h3
  show ?thesis
    by blast
qed

subsection \<open>Acknowledgment flags under the operations of the store\<close>

lemma filter_other_key:
  "uid' \<noteq> uid \<or> wd' \<noteq> wd \<Longrightarrow>
   filter (\<lambda>x. \<not> for_user_workday uid' wd' x \<and> for_user_workday uid wd x) rows =
   filter (for_user_workday uid wd) rows"
  by (induction rows) (auto simp: for_user_workday_iff)

lemma for_other_key:
  "(uid', wd') \<noteq> (uid, wd) \<Longrightarrow> for_user_workday uid' wd' r \<Longrightarrow> \<not> for_user_workday uid wd r"
  by (auto simp: for_user_workday_iff)

lemma inserted_with_time_key [simp]:
  "for_user_workday uid wd (inserted_row ((c, v) # new_record uid' wd' e) s) \<longleftrightarrow>
     (if c = Col_user_slack_id then v = SText uid else uid' = uid)
     \<and> (if c = Col_workday then v = SText wd else wd' = wd)"
  by (auto simp: for_user_workday_iff inserted_row_def new_record_def)

lemma kept_refl: "kept flag rows rows"
  unfolding kept_def by (rule exI [of _ "\<lambda>r. r"]) simp

lemma kept_update:
  assumes "map_of sets Col_id = None" "map_of sets Col_user_slack_id = None"
    "map_of sets Col_workday = None"
    "\<And>v. map_of (rev sets) flag = Some v \<Longrightarrow> flag_set (stored flag v)"
  shows "kept flag (filter (for_user_workday uid wd) rows)
           (filter (for_user_workday uid wd) (update_where_id sets aid rows))"
  unfolding kept_def
proof (intro exI conjI allI impI)
  show "filter (for_user_workday uid wd) (update_where_id sets aid rows) =
        map (\<lambda>r. if sql_eq (r Col_id) aid then assign sets r else r) (filter (for_user_workday uid wd) rows)"
    using assms(2,3) by (simp add: filter_update_where_id) (simp add: update_where_id_def)
next
  fix r show "(if sql_eq (r Col_id) aid then assign sets r else r) Col_id = r Col_id"
    using assms(1) by (simp add: assign_other)
next
  fix r assume "flag_set (r flag)"
  then show "flag_set ((if sql_eq (r Col_id) aid then assign sets r else r) flag)"
    using assms(4) by (auto simp: assign_apply split: option.splits)
qed

lemma kept_invariants:
  assumes "kept flag (filter (for_user_workday uid wd) (audits s)) (filter (for_user_workday uid wd) (audits s'))"
    and "needs_no_repair uid wd s" and "acknowledged flag uid wd s"
  shows "needs_no_repair uid wd s' \<and> acknowledged flag uid wd s'"
proof -
  from assms(1) obtain f where f: "filter (for_user_workday uid wd) (audits s') =
      map f (filter (for_user_workday uid wd) (audits s))"
    and fid: "\<And>r. f r Col_id = r Col_id"
    and ffl: "\<And>r. flag_set (r flag) \<Longrightarrow> flag_set (f r flag)"
    unfolding kept_def by blast
  have "list_all (\<lambda>r. r Col_id \<noteq> SNull) (map f rows)" if "list_all (\<lambda>r. r Col_id \<noteq> SNull) rows" for rows
    using that fid by (induction rows) auto
  moreover have "list_ex (\<lambda>r. flag_set (r flag)) (map f rows)" if "list_ex (\<lambda>r. flag_set (r flag)) rows" for rows
    using that ffl by (induction rows) auto
  ultimately show ?thesis
    using assms(2,3) unfolding needs_no_repair_def acknowledged_def f by blast
qed

lemma keeps_acknowledgment_mem:
  assumes "keeps_acknowledgment kwargs" and "(k, v) \<in> set kwargs" and "column_of_name k = Some c"
  shows "c \<noteq> Col_id" "c \<noteq> Col_user_slack_id" "c \<noteq> Col_workday"
    "c = Col_is_supervisor_acknowledged \<or> c = Col_is_second_supervisor_acknowledged \<Longrightarrow>
     flag_set (stored c v)"
proof -
  from assms(1) have "\<forall>x\<in>set kwargs. case x of (k, v) \<Rightarrow>
      (case column_of_name k of
         None \<Rightarrow> True
       | Some c \<Rightarrow>
           c \<noteq> Col_id \<and> c \<noteq> Col_user_slack_id \<and> c \<noteq> Col_workday
           \<and> (c = Col_is_supervisor_acknowledged \<or> c = Col_is_second_supervisor_acknowledged
               \<longrightarrow> flag_set (stored c v)))"
    unfolding keeps_acknowledgment_def list_all_iff .
  from bspec [OF this assms(2)] assms(3)
  have *: "c \<noteq> Col_id \<and> c \<noteq> Col_user_slack_id \<and> c \<noteq> Col_workday
      \<and> (c = Col_is_supervisor_acknowledged \<or> c = Col_is_second_supervisor_acknowledged
          \<longrightarrow> flag_set (stored c v))"
    by simp
  from * show "c \<noteq> Col_id" by blast
  from * show "c \<noteq> Col_user_slack_id" by blast
  from * show "c \<noteq> Col_workday" by blast
  from * show "flag_set (stored c v)"
    if "c = Col_is_supervisor_acknowledged \<or> c = Col_is_second_supervisor_acknowledged"
    using that by blast
qed

lemma keeps_acknowledgment_resolved:
  assumes "resolve kwargs = Some sets" and "keeps_acknowledgment kwargs"
    and "flag = Col_is_supervisor_acknowledged \<or> flag = Col_is_second_supervisor_acknowledged"
  shows "map_of sets Col_id = None" "map_of sets Col_user_slack_id = None"
    "map_of sets Col_workday = None"
    "\<And>v. map_of (rev sets) flag = Some v \<Longrightarrow> flag_set (stored flag v)"
proof -
  note rel = resolve_list_all2 [OF assms(1)]
  have none: "map_of sets c = None"
    if "\<And>k v. (k, v) \<in> set kwargs \<Longrightarrow> column_of_name k = Some c \<Longrightarrow> False" for c
  proof (cases "map_of sets c")
    case None
    then show ?thesis .
  next
    case (Some v)
    from resolved_member [OF rel map_of_SomeD [OF Some]] that show ?thesis by blast
  qed
  show "map_of sets Col_id = None"
    using keeps_acknowledgment_mem(1) [OF assms(2)] by (intro none) blast
  show "map_of sets Col_user_slack_id = None"
    using keeps_acknowledgment_mem(2) [OF assms(2)] by (intro none) blast
  show "map_of sets Col_workday = None"
    using keeps_acknowledgment_mem(3) [OF assms(2)] by (intro none) blast
  show "flag_set (stored flag v)" if "map_of (rev sets) flag = Some v" for v
  proof -
    from resolved_source [OF rel that] obtain k where
      k: "(k, v) \<in> set kwargs" "column_of_name k = Some flag"
      by blast
    from keeps_acknowledgment_mem(4) [OF assms(2) k assms(3)] show ?thesis .
  qed
qed

lemma inserted_new_record_key [simp]:
  "for_user_workday uid wd (inserted_row (new_record uid' wd' e) s) \<longleftrightarrow> uid' = uid \<and> wd' = wd"
  by (auto simp: for_user_workday_iff)

lemma get_other_day:
  assumes "uid' \<noteq> uid \<or> wd' \<noteq> wd"
  shows "filter (for_user_workday uid wd) (audits (snd (get_audit_record uid' wd' s))) =
         filter (for_user_workday uid wd) (audits s)"
  using assms
  by (auto simp: get_audit_record_def Let_def filter_other_key split: option.splits)

lemma create_other_day:
  assumes "uid' \<noteq> uid \<or> wd' \<noteq> wd"
  shows "filter (for_user_workday uid wd) (audits (snd (create_audit_record uid' wd' e s))) =
         filter (for_user_workday uid wd) (audits s)"
  using assms
  by (auto simp: create_audit_record_def Let_def split_beta filter_other_key split: option.splits)

lemma login_kept:
  assumes ne: "filter (for_user_workday uid wd) (audits s) \<noteq> []"
    and fl: "flag = Col_is_supervisor_acknowledged \<or> flag = Col_is_second_supervisor_acknowledged"
  shows "kept flag (filter (for_user_workday uid wd) (audits s))
           (filter (for_user_workday uid wd) (audits (snd (update_user_login uid' wd' t s))))"
proof (cases "filter (for_user_workday uid' wd') (audits s)")
  case Nil
  with ne have "uid' \<noteq> uid \<or> wd' \<noteq> wd" by auto
  then have "filter (for_user_workday uid wd) (audits (snd (update_user_login uid' wd' t s))) =
      filter (for_user_workday uid wd) (audits s)"
    using Nil by (auto simp: update_user_login_def Let_def)
  then show ?thesis by (simp add: kept_refl)
next
  case (Cons a list)
  have "kept flag (filter (for_user_workday uid wd) (audits s))
        (filter (for_user_workday uid wd) (update_where_id [(Col_login_time, SText t)] (a Col_id) (audits s)))"
    using fl by (intro kept_update) auto
  then show ?thesis
    using Cons by (simp add: update_user_login_def Let_def kept_refl)
qed

lemma logout_kept:
  assumes ne: "filter (for_user_workday uid wd) (audits s) \<noteq> []"
    and fl: "flag = Col_is_supervisor_acknowledged \<or> flag = Col_is_second_supervisor_acknowledged"
  shows "kept flag (filter (for_user_workday uid wd) (audits s))
           (filter (for_user_workday uid wd) (audits (snd (record_user_logout now uid' s))))"
proof (cases "filter (for_user_workday uid' (strftime_Ymd now)) (audits s)")
  case Nil
  with ne have "uid' \<noteq> uid \<or> strftime_Ymd now \<noteq> wd" by auto
  then have "filter (for_user_workday uid wd) (audits (snd (record_user_logout now uid' s))) =
      filter (for_user_workday uid wd) (audits s)"
    using Nil by (auto simp: record_user_logout_def Let_def)
  then show ?thesis by (simp add: kept_refl)
next
  case (Cons a list)
  have "kept flag (filter (for_user_workday uid wd) (audits s))
        (filter (for_user_workday uid wd)
           (update_where_id [(Col_logout_time, SText (strftime_Ymd_HM now))] (a Col_id) (audits s)))"
    using fl by (intro kept_update) auto
  then show ?thesis
    using Cons by (simp add: record_user_logout_def Let_def kept_refl)
qed

lemma update_kept:
  assumes esc: "keeps_acknowledgment kwargs"
    and fl: "flag = Col_is_supervisor_acknowledged \<or> flag = Col_is_second_supervisor_acknowledged"
  shows "kept flag (filter (for_user_workday uid wd) (audits s))
           (filter (for_user_workday uid wd) (audits (snd (update_audit_record audit_id kwargs s))))"
proof (cases "kwargs = []")
  case True
  then show ?thesis by (simp add: update_audit_record_def kept_refl)
next
  case False
  show ?thesis
  proof (cases "fst (update_audit_record audit_id kwargs s) = Some True")
    case True
    from update_audit_record_success [OF False True] obtain sets where
      r: "resolve kwargs = Some sets"
      and s': "snd (update_audit_record audit_id kwargs s) =
               s\<lparr>audits := update_where_id sets (stored Col_id audit_id) (audits s)\<rparr>"
      by blast
    from kept_update [OF keeps_acknowledgment_resolved [OF r esc fl]] show ?thesis
      by (simp add: s')
  next
    case no: False
    from update_audit_record_failure [OF False no]
    have "snd (update_audit_record audit_id kwargs s) = s" by simp
    then show ?thesis by (simp add: kept_refl)
  qed
qed

lemma run_kept:
  assumes "normal_op op" and "needs_no_repair uid wd s"
    and ne: "filter (for_user_workday uid wd) (audits s) \<noteq> []"
    and fl: "flag = Col_is_supervisor_acknowledged \<or> flag = Col_is_second_supervisor_acknowledged"
  shows "kept flag (filter (for_user_workday uid wd) (audits s))
           (filter (for_user_workday uid wd) (audits (run op s)))"
proof -
  from ne obtain r0 rs where rows: "filter (for_user_workday uid wd) (audits s) = r0 # rs"
    by (cases "filter (for_user_workday uid wd) (audits s)") auto
  with assms(2) have id0: "r0 Col_id \<noteq> SNull"
    by (simp add: needs_no_repair_def)
  show ?thesis
  proof (cases op)
    case (Get_audit_record uid' wd')
    show ?thesis
    proof (cases "uid' = uid \<and> wd' = wd")
      case True
      with rows id0 have "run op s = s"
        by (simp add: Get_audit_record get_audit_record_def Let_def)
      then show ?thesis by (simp add: kept_refl)
    next
      case False
      then show ?thesis
        using get_other_day [of uid' uid wd' wd s] by (simp add: Get_audit_record kept_refl)
    qed
  next
    case (Create_audit_record uid' wd' e)
    show ?thesis
    proof (cases "uid' = uid \<and> wd' = wd")
      case True
      with rows id0 have "run op s = s"
        by (simp add: Create_audit_record create_audit_record_def Let_def)
      then show ?thesis by (simp add: kept_refl)
    next
      case False
      then show ?thesis
        using create_other_day [of uid' uid wd' wd e s] by (simp add: Create_audit_record kept_refl)
    qed
  next
    case (Update_user_login uid' wd' t)
    then show ?thesis using login_kept [OF ne fl] by simp
  next
    case (Record_user_login now uid')
    then show ?thesis using login_kept [OF ne fl] by (simp add: record_user_login_def Let_def)
  next
    case (Record_user_logout now uid')
    then show ?thesis using logout_kept [OF ne fl] by simp
  next
    case (Update_audit_record audit_id kwargs)
    with assms(1) show ?thesis using update_kept [OF _ fl] by simp
  qed
qed

lemma acknowledged_rows:
  "acknowledged flag uid wd s \<Longrightarrow> filter (for_user_workday uid wd) (audits s) \<noteq> []"
  by (auto simp: acknowledged_def)

text \<open>
  C8, as the claim states it, fails: updating fields is an operation of the store that
  is no repair, and it writes what it is given. On the record of the day that the
  supervisor has acknowledged, \<open>update_audit_record(1, is_supervisor_acknowledged=0)\<close>
  answers \<open>True\<close> and the flag is no longer set; so it is when the name is written
  in capitals.
\<close>

theorem acknowledgment_flag_reset_by_update:
  "needs_no_repair ''U1'' ''2025-03-10'' ex_acked
   \<and> acknowledged Col_is_supervisor_acknowledged ''U1'' ''2025-03-10'' ex_acked
   \<and> fst (update_audit_record (SInt 1) [(''is_supervisor_acknowledged'', SInt 0)] ex_acked) = Some True
   \<and> \<not> acknowledged Col_is_supervisor_acknowledged ''U1'' ''2025-03-10''
        (run (Update_audit_record (SInt 1) [(''is_supervisor_acknowledged'', SInt 0)]) ex_acked)
   \<and> fst (update_audit_record (SInt 1) [(''IS_SUPERVISOR_ACKNOWLEDGED'', SInt 0)] ex_acked) = Some True
   \<and> \<not> acknowledged Col_is_supervisor_acknowledged ''U1'' ''2025-03-10''
        (run (Update_audit_record (SInt 1) [(''IS_SUPERVISOR_ACKNOWLEDGED'', SInt 0)]) ex_acked)"
  by (simp add: needs_no_repair_def acknowledged_def ex_acked_def for_user_workday_iff ex_row_def
        flag_set_def update_audit_record_def resolve_def column_names not_null_violated_def
        update_where_id_Cons sql_eq_def assign_apply Let_def)

text \<open>
  C8, amended. Take a user and workday none of whose records lacks its id (reading such
  a record is what starts a repair), and an acknowledgment flag that is set for them.
  The flag is still set for that user and workday after any sequence of
  \<open>get_audit_record\<close>, \<open>create_audit_record\<close>, \<open>update_user_login\<close>,
  \<open>record_user_login\<close>, \<open>record_user_logout\<close>, and of calls of
  \<open>update_audit_record\<close> whose field map names, in whatever case of the letters,
  neither the id, the user nor the workday, and gives to an acknowledgment flag only
  values that are stored as an integer other than 0. The store itself refuses no field
  map that resets a flag.
\<close>

theorem acknowledgment_flags_kept:
  assumes "list_all normal_op ops"
    and "flag = Col_is_supervisor_acknowledged \<or> flag = Col_is_second_supervisor_acknowledged"
    and "needs_no_repair uid wd s" and "acknowledged flag uid wd s"
  shows "acknowledged flag uid wd (foldl (\<lambda>s op. run op s) s ops)"
proof -
  have "needs_no_repair uid wd (foldl (\<lambda>s op. run op s) s ops)
        \<and> acknowledged flag uid wd (foldl (\<lambda>s op. run op s) s ops)"
    using assms(1,3,4)
  proof (induction ops arbitrary: s)
    case Nil
    then show ?case by simp
  next
    case (Cons op ops)
    from Cons.prems have n: "normal_op op" and ns: "list_all normal_op ops" by simp_all
    from run_kept [OF n Cons.prems(2) acknowledged_rows [OF Cons.prems(3)] assms(2)]
    have "needs_no_repair uid wd (run op s) \<and> acknowledged flag uid wd (run op s)"
      using kept_invariants Cons.prems(2,3) by blast
    with Cons.IH [OF ns] show ?case by simp
  qed
  then show ?thesis ..
qed

theorem acknowledgment_flags_kept_witness:
  "list_all normal_op ex_ops
   \<and> needs_no_repair ''U1'' ''2025-03-10'' ex_acked
   \<and> acknowledged Col_is_supervisor_acknowledged ''U1'' ''2025-03-10'' ex_acked
   \<and> acknowledged Col_is_supervisor_acknowledged ''U1'' ''2025-03-10''
        (foldl (\<lambda>s op. run op s) ex_acked ex_ops)"
proof -
  have h1: "list_all normal_op ex_ops"
    by (simp add: ex_ops_def keeps_acknowledgment_def column_names flag_set_def)
  have h2: "needs_no_repair ''U1'' ''2025-03-10'' ex_acked"
    by (simp add: needs_no_repair_def ex_acked_def for_user_workday_iff ex_row_def)
  have h3: "acknowledged Col_is_supervisor_acknowledged ''U1'' ''2025-03-10'' ex_acked"
    by (simp add: acknowledged_def ex_acked_def for_user_workday_iff ex_row_def flag_set_def)
  from acknowledgment_flags_kept [OF h1 _ h2 h3] h1 h2 h3 show ?thesis
    by blast
qed

text \<open>The repairs do reset the flags: \<open>get_audit_record\<close> on a record without id, and
  \<open>fix_stuck_records\<close> on a stuck record whose second flag is set.\<close>

lemma repairs_reset_flags:
  "acknowledged Col_is_supervisor_acknowledged ''U1'' ''2025-03-10''
     (ex_corrupt\<lparr>audits := [ex_corrupt_row (Col_is_supervisor_acknowledged := SInt 1)]\<rparr>)
   \<and> \<not> acknowledged Col_is_supervisor_acknowledged ''U1'' ''2025-03-10''
        (snd (get_audit_record ''U1'' ''2025-03-10''
           (ex_corrupt\<lparr>audits := [ex_corrupt_row (Col_is_supervisor_acknowledged := SInt 1)]\<rparr>)))
   \<and> acknowledged Col_is_second_supervisor_acknowledged ''U1'' ''2025-03-10''
        (ex_db\<lparr>audits := [ex_row (Col_is_second_supervisor_acknowledged := SInt 1)]\<rparr>)
   \<and> \<not> acknowledged Col_is_second_supervisor_acknowledged ''U1'' ''2025-03-10''
        (snd (fix_stuck_records ex_now ''2025-03-10 09:08:30''
           (ex_db\<lparr>audits := [ex_row (Col_is_second_supervisor_acknowledged := SInt 1)]\<rparr>)))"
  by (simp add: acknowledged_def flag_set_def for_user_workday_iff ex_corrupt_row_def ex_row_def
        ex_corrupt_def ex_db_def get_audit_record_def Let_def inserted_row_def new_record_def
        fix_stuck_records_def stuck_def sql_eq_def sql_gt0_def update_where_id_Cons reset_sets_def
        assign_apply delete_audits_def insert_audits_def)

subsection \<open>At most one record per user and workday\<close>

text \<open>
  The table declares no uniqueness of the user and workday, but the operations of the
  store keep it: if no user and workday has more than one record before an operation,
  none has after it. This is the condition under which the results on
  \<open>create_audit_record\<close> and on reading back a login time speak of "the" record.
\<close>

lemma length_update_where_id_day:
  assumes "map_of sets Col_user_slack_id = None" "map_of sets Col_workday = None"
  shows "length (filter (for_user_workday uid wd) (update_where_id sets aid rows)) =
         length (filter (for_user_workday uid wd) rows)"
  by (simp add: filter_update_where_id [OF assms]) (simp add: update_where_id_def)

lemma inserted_time_key [simp]:
  "c \<noteq> Col_user_slack_id \<Longrightarrow> c \<noteq> Col_workday \<Longrightarrow>
   for_user_workday uid wd (inserted_row ((c, v) # new_record uid' wd' e) s) \<longleftrightarrow> uid' = uid \<and> wd' = wd"
  by (auto simp: for_user_workday_iff inserted_row_def new_record_def)

lemma run_one_per_day:
  assumes "normal_op op" and one: "\<And>uid wd. length (filter (for_user_workday uid wd) (audits s)) \<le> 1"
  shows "length (filter (for_user_workday uid wd) (audits (run op s))) \<le> 1"
proof (cases op)
  case (Get_audit_record uid' wd')
  show ?thesis
  proof (cases "uid' = uid \<and> wd' = wd")
    case True
    then show ?thesis
      using one [of uid wd]
      by (auto simp: Get_audit_record get_audit_record_def Let_def split: option.splits)
  next
    case False
    then show ?thesis
      using get_other_day [of uid' uid wd' wd s] one [of uid wd] by (simp add: Get_audit_record)
  qed
next
  case (Create_audit_record uid' wd' e)
  show ?thesis
  proof (cases "uid' = uid \<and> wd' = wd")
    case True
    then show ?thesis
      using one [of uid wd]
      by (auto simp: Create_audit_record create_audit_record_def Let_def split_beta split: option.splits)
  next
    case False
    then show ?thesis
      using create_other_day [of uid' uid wd' wd e s] one [of uid wd] by (simp add: Create_audit_record)
  qed
next
  case (Update_user_login uid' wd' t)
  show ?thesis
    using one [of uid wd] one [of uid' wd']
    by (auto simp: Update_user_login update_user_login_def Let_def length_update_where_id_day
        split: option.splits)
next
  case (Record_user_login now uid')
  show ?thesis
    using one [of uid wd] one [of uid' "strftime_Ymd now"]
    by (auto simp: Record_user_login record_user_login_def update_user_login_def Let_def
        length_update_where_id_day split: option.splits)
next
  case (Record_user_logout now uid')
  show ?thesis
    using one [of uid wd] one [of uid' "strftime_Ymd now"]
    by (auto simp: Record_user_logout record_user_logout_def Let_def length_update_where_id_day
        split: option.splits)
next
  case (Update_audit_record audit_id kwargs)
  show ?thesis
  proof (cases "kwargs \<noteq> [] \<and> fst (update_audit_record audit_id kwargs s) = Some True")
    case True
    then have ne: "kwargs \<noteq> []" and ok: "fst (update_audit_record audit_id kwargs s) = Some True"
      by simp_all
    from update_audit_record_success [OF ne ok] obtain sets where r: "resolve kwargs = Some sets"
      and s': "run op s = s\<lparr>audits := update_where_id sets (stored Col_id audit_id) (audits s)\<rparr>"
      by (auto simp: Update_audit_record)
    from assms(1) have esc: "keeps_acknowledgment kwargs" by (simp add: Update_audit_record)
    from keeps_acknowledgment_resolved(2,3) [OF r esc, of Col_is_supervisor_acknowledged]
    show ?thesis using one [of uid wd] by (simp add: s' length_update_where_id_day)
  next
    case False
    have "run op s = s"
    proof (cases "kwargs = []")
      case True
      then show ?thesis by (simp add: Update_audit_record update_audit_record_def)
    next
      case ne: False
      with False have "fst (update_audit_record audit_id kwargs s) \<noteq> Some True" by simp
      from update_audit_record_failure [OF ne this] show ?thesis
        by (simp add: Update_audit_record)
    qed
    then show ?thesis using one [of uid wd] by simp
  qed
qed

subsection \<open>Stuck records: what is detected and what the repair writes\<close>

lemma assign_reset:
  "assign (reset_sets now_str) r =
     r (Col_second_supervisor_notified := SInt 0,
        Col_is_second_supervisor_acknowledged := SInt 0,
        Col_last_supervisor_notification_time := SText now_str)"
  by (rule ext) (simp add: assign_apply reset_sets_def)

lemma reset_stuck_result:
  "reset_stuck ids now_str rows n =
     (map (\<lambda>r. if list_ex (\<lambda>a. sql_eq (r Col_id) a) ids then assign (reset_sets now_str) r else r) rows,
      n + length ids)"
proof (induction ids arbitrary: rows n)
  case Nil
  then show ?case by simp
next
  case (Cons a ids)
  have idem: "assign (reset_sets now_str) (assign (reset_sets now_str) r) = assign (reset_sets now_str) r" for r
    by (simp add: assign_reset)
  have keep: "assign (reset_sets now_str) r Col_id = r Col_id" for r
    by (simp add: assign_reset)
  show ?case
    by (simp add: Cons.IH update_where_id_def idem keep)
qed

lemma stuck_ignores_time:
  "stuck today (r (Col_last_supervisor_notification_time := v)) = stuck today r"
  by (simp add: stuck_def)

lemma list_ex_stuck_ids:
  "list_ex (\<lambda>a. sql_eq x a) (map (\<lambda>r. r Col_id) (filter (stuck today) rows)) =
   list_ex (\<lambda>q. stuck today q \<and> sql_eq x (q Col_id)) rows"
  by (induction rows) auto

lemma stuck_by_id:
  assumes "distinct (map (\<lambda>r. r Col_id) rows)" and "list_all (\<lambda>r. r Col_id \<noteq> SNull) rows"
    and "r \<in> set rows"
  shows "list_ex (\<lambda>q. stuck today q \<and> sql_eq (r Col_id) (q Col_id)) rows \<longleftrightarrow> stuck today r"
proof
  assume "list_ex (\<lambda>q. stuck today q \<and> sql_eq (r Col_id) (q Col_id)) rows"
  then obtain q where q: "q \<in> set rows" "stuck today q" "r Col_id = q Col_id"
    by (auto simp: list_ex_iff sql_eq_def)
  from assms(1) have "inj_on (\<lambda>r. r Col_id) (set rows)" by (simp add: distinct_map)
  with q(1,3) assms(3) have "q = r" by (auto dest: inj_onD)
  with q(2) show "stuck today r" by simp
next
  assume "stuck today r"
  with assms(2,3) show "list_ex (\<lambda>q. stuck today q \<and> sql_eq (r Col_id) (q Col_id)) rows"
    by (auto simp: list_ex_iff list_all_iff sql_eq_def)
qed

text \<open>
  C6, as the claim states it, fails in both directions. At 09:08 the record whose
  supervisor was notified at 09:08 is counted and reset as stuck, although the
  escalation window of two minutes has not elapsed; and yesterday's record, notified a
  day ago, never escalated and never acknowledged, is not stuck for the code, which
  only looks at the records of today.
\<close>

theorem stuck_claim_counterexample:
  "stuck (strftime_Ymd ex_now) ex_row
   \<and> \<not> stuck_as_specified ex_now ex_row
   \<and> stuck_records (check_database_integrity ex_now ex_db) = Some 1
   \<and> fst (fix_stuck_records ex_now ''2025-03-10 09:08:30'' ex_db) = 1
   \<and> stuck_as_specified ex_now ex_old_row
   \<and> \<not> stuck (strftime_Ymd ex_now) ex_old_row"
  by (simp add: stuck_def stuck_as_specified_def escalation_window_elapsed_def ex_row_def ex_old_row_def
        sql_eq_def sql_gt0_def two_digits_def digit_val_def SUPERVISOR_ESCALATION_MINUTES_def
        check_database_integrity_def fix_stuck_records_def Let_def update_where_id_Cons reset_sets_def)

text \<open>
  C6, amended. \<open>check_database_integrity\<close> counts and \<open>fix_stuck_records\<close>
  selects exactly the records of today's workday with \<open>supervisor_notified > 0\<close>,
  \<open>second_supervisor_notified = 0\<close> and \<open>is_supervisor_acknowledged = 0\<close>, whatever
  the time of the last notification. \<open>fix_stuck_records\<close> returns their number and,
  in a table whose ids are distinct and not NULL, writes into each of them
  \<open>second_supervisor_notified = 0\<close>, \<open>is_second_supervisor_acknowledged = 0\<close> and the
  current time as \<open>last_supervisor_notification_time\<close>; every other record, and every
  other column, is as before.
\<close>

theorem stuck_records_detected_and_reset:
  "(stuck today r \<longleftrightarrow>
      r Col_workday = SText today \<and> sql_gt0 (r Col_supervisor_notified)
      \<and> r Col_second_supervisor_notified = SInt 0 \<and> r Col_is_supervisor_acknowledged = SInt 0)
   \<and> stuck today (r (Col_last_supervisor_notification_time := v)) = stuck today r
   \<and> stuck_records (check_database_integrity now s) =
       (if filter (stuck (strftime_Ymd now)) (audits s) = [] then None
        else Some (length (filter (stuck (strftime_Ymd now)) (audits s))))
   \<and> fst (fix_stuck_records now now_str s) = length (filter (stuck (strftime_Ymd now)) (audits s))
   \<and> (distinct (map (\<lambda>r. r Col_id) (audits s)) \<and> list_all (\<lambda>r. r Col_id \<noteq> SNull) (audits s) \<longrightarrow>
        snd (fix_stuck_records now now_str s) =
          s\<lparr>audits :=
              map (\<lambda>r. if stuck (strftime_Ymd now) r
                        then r (Col_second_supervisor_notified := SInt 0,
                                Col_is_second_supervisor_acknowledged := SInt 0,
                                Col_last_supervisor_notification_time := SText now_str)
                        else r)
                (audits s)\<rparr>)"
proof (intro conjI impI)
  show "stuck today r \<longleftrightarrow>
      r Col_workday = SText today \<and> sql_gt0 (r Col_supervisor_notified)
      \<and> r Col_second_supervisor_notified = SInt 0 \<and> r Col_is_supervisor_acknowledged = SInt 0"
    by (auto simp: stuck_def sql_eq_def)
  show "stuck today (r (Col_last_supervisor_notification_time := v)) = stuck today r"
    by (rule stuck_ignores_time)
  show "stuck_records (check_database_integrity now s) =
       (if filter (stuck (strftime_Ymd now)) (audits s) = [] then None
        else Some (length (filter (stuck (strftime_Ymd now)) (audits s))))"
    by (simp add: check_database_integrity_def Let_def)
  show "fst (fix_stuck_records now now_str s) = length (filter (stuck (strftime_Ymd now)) (audits s))"
    by (simp add: fix_stuck_records_def Let_def reset_stuck_result)
next
  assume wf: "distinct (map (\<lambda>r. r Col_id) (audits s)) \<and> list_all (\<lambda>r. r Col_id \<noteq> SNull) (audits s)"
  have "map (\<lambda>r. if list_ex (\<lambda>a. sql_eq (r Col_id) a)
                      (map (\<lambda>r. r Col_id) (filter (stuck (strftime_Ymd now)) (audits s)))
                 then assign (reset_sets now_str) r else r) (audits s) =
        map (\<lambda>r. if stuck (strftime_Ymd now) r then assign (reset_sets now_str) r else r) (audits s)"
    using wf by (intro map_cong refl) (simp add: list_ex_stuck_ids stuck_by_id)
  then show "snd (fix_stuck_records now now_str s) =
          s\<lparr>audits :=
              map (\<lambda>r. if stuck (strftime_Ymd now) r
                        then r (Col_second_supervisor_notified := SInt 0,
                                Col_is_second_supervisor_acknowledged := SInt 0,
                                Col_last_supervisor_notification_time := SText now_str)
                        else r)
                (audits s)\<rparr>"
    by (simp add: fix_stuck_records_def Let_def reset_stuck_result assign_reset)
qed

theorem stuck_records_detected_and_reset_witness:
  "distinct (map (\<lambda>r. r Col_id) (audits ex_db))
   \<and> list_all (\<lambda>r. r Col_id \<noteq> SNull) (audits ex_db)
   \<and> snd (fix_stuck_records ex_now ''2025-03-10 09:08:30'' ex_db) =
       ex_db\<lparr>audits :=
           map (\<lambda>r. if stuck (strftime_Ymd ex_now) r
                     then r (Col_second_supervisor_notified := SInt 0,
                             Col_is_second_supervisor_acknowledged := SInt 0,
                             Col_last_supervisor_notification_time := SText ''2025-03-10 09:08:30'')
                     else r)
             (audits ex_db)\<rparr>
   \<and> fst (fix_stuck_records ex_now ''2025-03-10 09:08:30'' ex_db) =
       length (filter (stuck (strftime_Ymd ex_now)) (audits ex_db))"
proof -
  have h: "distinct (map (\<lambda>r. r Col_id) (audits ex_db))
      \<and> list_all (\<lambda>r. r Col_id \<noteq> SNull) (audits ex_db)"
    by simp
  note inst = stuck_records_detected_and_reset
    [where s = ex_db and now = ex_now and now_str = "''2025-03-10 09:08:30''"
       and today = "strftime_Ymd ex_now" and r = ex_row and v = SNull]
  from inst h show ?thesis by blast
qed

subsection \<open>Repairing a record without id\<close>

lemma inserted_copied:
  "audits_pk t \<Longrightarrow> inserted_row (copied r) t = carried (next_rowid t) r"
  apply (rule ext)
  subgoal for c
    by (cases c) (simp_all add: inserted_row_def copied_def carried_def column_default_def
          default_zero_def)
  done

lemma carried_key [simp]:
  "for_user_workday uid wd (carried i r) = for_user_workday uid wd r"
  by (simp add: for_user_workday_def carried_def default_zero_def)

lemma carried_id [simp]: "carried i r Col_id = SInt i"
  by (simp add: carried_def)

lemma max_id_ge: "r \<in> set rows \<Longrightarrow> r Col_id = SInt i \<Longrightarrow> i \<le> max_id rows"
  by (induction rows) (auto simp: max_id_def split: sqlval.splits)

lemma next_rowid_fresh: "r \<in> set (audits t) \<Longrightarrow> r Col_id \<noteq> SInt (next_rowid t)"
  using max_id_ge [of r "audits t" "next_rowid t"] by (auto simp: next_rowid_def)

lemma ids_ok_insert:
  assumes "audits_pk t" and "ids_ok (audits t)"
  shows "ids_ok (audits t @ [carried (next_rowid t) r])"
proof -
  have "\<forall>x\<in>set (audits t). x Col_id \<noteq> SInt (next_rowid t)"
    using next_rowid_fresh by blast
  then have "SInt (next_rowid t) \<notin> (\<lambda>r. r Col_id) ` set (audits t)"
    by auto
  with assms(2) show ?thesis
    by (simp add: ids_ok_def)
qed

lemma insert_select_Some:
  assumes "audits_pk t" and "list_all (\<lambda>r. r Col_user_slack_id \<noteq> SNull \<and> r Col_workday \<noteq> SNull) rows"
    and "ids_ok (audits t)"
  shows "\<exists>t' new. insert_select rows t = Some t' \<and> audits_pk t' \<and> users t' = users t
           \<and> acknowledgment_tokens t' = acknowledgment_tokens t
           \<and> audits t' = audits t @ new \<and> ids_ok (audits t')
           \<and> list_all2 (\<lambda>r r'. \<exists>i. r' = carried i r) rows new"
  using assms
proof (induction rows arbitrary: t)
  case Nil
  then show ?case by simp
next
  case (Cons r rows)
  let ?t1 = "fst (insert_audits (copied r) t)"
  have pk1: "audits_pk ?t1" using Cons.prems(1) by simp
  have a1: "audits ?t1 = audits t @ [carried (next_rowid t) r]"
    using Cons.prems(1) by (simp add: inserted_copied)
  have ok1: "ids_ok (audits ?t1)"
    unfolding a1 using Cons.prems(1,3) by (rule ids_ok_insert)
  from Cons.prems(2) have rest: "list_all (\<lambda>r. r Col_user_slack_id \<noteq> SNull \<and> r Col_workday \<noteq> SNull) rows"
    and here: "r Col_user_slack_id \<noteq> SNull \<and> r Col_workday \<noteq> SNull"
    by simp_all
  from Cons.IH [OF pk1 rest ok1] obtain t' new where
    t': "insert_select rows ?t1 = Some t'" "audits_pk t'" "users t' = users ?t1"
      "acknowledgment_tokens t' = acknowledgment_tokens ?t1"
      "audits t' = audits ?t1 @ new" "ids_ok (audits t')"
      "list_all2 (\<lambda>r r'. \<exists>i. r' = carried i r) rows new"
    by blast
  show ?case
  proof (intro exI conjI)
    show "insert_select (r # rows) t = Some t'" using here t'(1) by simp
    show "audits t' = audits t @ (carried (next_rowid t) r # new)" using t'(5) a1 by simp
    show "list_all2 (\<lambda>r r'. \<exists>i. r' = carried i r) (r # rows) (carried (next_rowid t) r # new)"
      using t'(7) by auto
  qed (use t' in simp_all)
qed

lemma list_all2_filter_key:
  assumes "list_all2 (\<lambda>r r'. \<exists>i. r' = carried i r) rows new"
  shows "list_all2 (\<lambda>r r'. \<exists>i. r' = carried i r)
           (filter (for_user_workday uid wd) rows) (filter (for_user_workday uid wd) new)"
  using assms by (induction rule: list_all2_induct) auto

lemma ids_ok_new_record:
  assumes "audits_pk t" and "ids_ok (audits t)"
  shows "ids_ok (audits t @ [inserted_row (new_record uid wd e) t])"
proof -
  have "\<forall>x\<in>set (audits t). x Col_id \<noteq> SInt (next_rowid t)"
    using next_rowid_fresh by blast
  then have "SInt (next_rowid t) \<notin> (\<lambda>r. r Col_id) ` set (audits t)"
    by auto
  with assms show ?thesis
    by (simp add: ids_ok_def)
qed

lemma fix_user_record_keeps:
  assumes "audits_pk t" and "ids_ok (audits t)"
    and "filter (for_user_workday uid wd) (audits t) \<noteq> []"
  shows "audits_pk (snd (fix_user_record u now t))"
    and "ids_ok (audits (snd (fix_user_record u now t)))"
    and "filter (for_user_workday uid wd) (audits (snd (fix_user_record u now t))) =
         filter (for_user_workday uid wd) (audits t)"
  using assms by (auto simp: fix_user_record_def Let_def ids_ok_new_record)

lemma list_all2_carried_single:
  "list_all2 (\<lambda>r r'. \<exists>i. r' = carried i r) [r] new \<Longrightarrow> \<exists>i. new = [carried i r]"
  by (auto simp: list_all2_Cons1)

lemma filter_swap: "filter P (filter Q xs) = filter Q (filter P xs)"
  by (induction xs) auto

lemma manual_fix_one_row:
  assumes keys: "list_all (\<lambda>x. x Col_user_slack_id \<noteq> SNull \<and> x Col_workday \<noteq> SNull) (audits s)"
    and one: "filter (for_user_workday uid wd) (audits s) = [r]" and nul: "r Col_id = SNull"
  shows "fst (manual_fix now s) \<and> audits_pk (snd (manual_fix now s))
         \<and> ids_ok (audits (snd (manual_fix now s)))
         \<and> (\<exists>i. filter (for_user_workday uid wd) (audits (snd (manual_fix now s))) = [carried i r])"
proof -
  let ?new = "s\<lparr>audits := [], audits_pk := True, audits_seq := 0\<rparr>"
  let ?valid = "filter (\<lambda>r. r Col_id \<noteq> SNull) (audits s)"
  have kv: "list_all (\<lambda>x. x Col_user_slack_id \<noteq> SNull \<and> x Col_workday \<noteq> SNull) ?valid"
    using keys by (simp add: list_all_iff)
  from insert_select_Some [of ?new ?valid, OF _ kv]
  obtain t1 new1 where t1: "insert_select ?valid ?new = Some t1" "audits_pk t1"
      "audits t1 = new1" "ids_ok (audits t1)"
      "list_all2 (\<lambda>r r'. \<exists>i. r' = carried i r) ?valid new1"
    by (auto simp: ids_ok_def)
  let ?sel = "filter
     (\<lambda>a1. a1 Col_id = SNull
        \<and> \<not> list_ex
             (\<lambda>a2. sql_eq (a2 Col_user_slack_id) (a1 Col_user_slack_id)
                  \<and> sql_eq (a2 Col_workday) (a1 Col_workday))
             (audits t1))
     (audits s)"
  have ks: "list_all (\<lambda>x. x Col_user_slack_id \<noteq> SNull \<and> x Col_workday \<noteq> SNull) ?sel"
    using keys by (simp add: list_all_iff)
  from insert_select_Some [OF t1(2) ks t1(4)]
  obtain t2 new2 where t2: "insert_select ?sel t1 = Some t2" "audits_pk t2"
      "audits t2 = audits t1 @ new2" "ids_ok (audits t2)"
      "list_all2 (\<lambda>r r'. \<exists>i. r' = carried i r) ?sel new2"
    by blast
  have mf: "manual_fix now s = (True, snd (fix_user_record ''U06081ECKT3'' now t2))"
    using t1(1) t2(1) by (simp add: manual_fix_def Let_def)
  have comm: "filter (for_user_workday uid wd) (filter P (audits s)) = filter P [r]" for P
    by (subst filter_swap) (simp only: one)
  have "filter (for_user_workday uid wd) ?valid = []"
    using nul by (simp only: comm) simp
  with list_all2_filter_key [OF t1(5), of uid wd]
  have n1: "filter (for_user_workday uid wd) new1 = []"
    by simp
  have "r \<in> set (filter (for_user_workday uid wd) (audits s))"
    by (simp only: one) simp
  then have rkey: "r Col_user_slack_id = SText uid \<and> r Col_workday = SText wd"
    by (simp add: for_user_workday_iff)
  have unseen: "\<not> list_ex
             (\<lambda>a2. sql_eq (a2 Col_user_slack_id) (r Col_user_slack_id)
                  \<and> sql_eq (a2 Col_workday) (r Col_workday))
             (audits t1)"
  proof
    assume "list_ex (\<lambda>a2. sql_eq (a2 Col_user_slack_id) (r Col_user_slack_id)
                  \<and> sql_eq (a2 Col_workday) (r Col_workday)) (audits t1)"
    then obtain a2 where "a2 \<in> set new1" "for_user_workday uid wd a2"
      using rkey t1(3) by (auto simp: list_ex_iff for_user_workday_def)
    then have "a2 \<in> set (filter (for_user_workday uid wd) new1)" by simp
    with n1 show False by simp
  qed
  have "filter (for_user_workday uid wd) ?sel = [r]"
    using nul unseen by (simp only: comm) simp
  with list_all2_filter_key [OF t2(5), of uid wd]
  obtain i where n2: "filter (for_user_workday uid wd) new2 = [carried i r]"
    using list_all2_carried_single by fastforce
  have rows2: "filter (for_user_workday uid wd) (audits t2) = [carried i r]"
    using n1 n2 t1(3) t2(3) by simp
  then have ne: "filter (for_user_workday uid wd) (audits t2) \<noteq> []" by simp
  from fix_user_record_keeps [OF t2(2) t2(4) ne, of "''U06081ECKT3''" now] rows2 mf
  show ?thesis by auto
qed

lemma get_audit_record_recreates:
  assumes "filter (for_user_workday uid wd) (audits s) = r # rs" and "r Col_id = SNull"
  shows "audits (snd (get_audit_record uid wd s)) =
           filter (\<lambda>x. \<not> for_user_workday uid wd x) (audits s) @
           [inserted_row (new_record uid wd (user_expected_login_time uid s)) (delete_audits uid wd s)]"
  using assms
  by (simp add: get_audit_record_def Let_def user_expected_login_time_def split: option.splits)

text \<open>What \<open>get_audit_record\<close> answers where the table has lost its primary key: the
  row it inserts in place of the one without id has no id either, and the result is
  \<open>None\<close>.\<close>

lemma get_audit_record_repair_without_key:
  assumes "filter (for_user_workday uid wd) (audits s) = r # rs" and "r Col_id = SNull"
    and "\<not> audits_pk s"
  shows "fst (get_audit_record uid wd s) = None"
  using assms
  by (simp add: get_audit_record_def Let_def)

text \<open>
  C7, as the claim states it, fails: the two repair paths do not agree. On the table
  that holds one record without id, with three reminders and two notifications of the
  supervisor counted, \<open>manual_fix\<close> carries the counters over to the record it
  creates, while the branch of \<open>get_audit_record\<close> creates a record with both
  counters 0, although the values were there to be kept; and the record that this
  branch creates has no id either, the table being the one without primary key in
  which such records arise.
\<close>

theorem repair_claim_counterexample:
  "filter (for_user_workday ''U1'' ''2025-03-10'') (audits ex_corrupt) = [ex_corrupt_row]
   \<and> ex_corrupt_row Col_id = SNull
   \<and> ex_corrupt_row Col_self_notified = SInt 3
   \<and> ex_corrupt_row Col_supervisor_notified = SInt 2
   \<and> map (\<lambda>r. (r Col_self_notified, r Col_supervisor_notified))
        (filter (for_user_workday ''U1'' ''2025-03-10'')
           (audits (snd (manual_fix ex_now ex_corrupt)))) = [(SInt 3, SInt 2)]
   \<and> map (\<lambda>r. (r Col_self_notified, r Col_supervisor_notified))
        (filter (for_user_workday ''U1'' ''2025-03-10'')
           (audits (snd (get_audit_record ''U1'' ''2025-03-10'' ex_corrupt)))) = [(SInt 0, SInt 0)]
   \<and> map (\<lambda>r. r Col_id)
        (filter (for_user_workday ''U1'' ''2025-03-10'')
           (audits (snd (get_audit_record ''U1'' ''2025-03-10'' ex_corrupt)))) = [SNull]
   \<and> fst (get_audit_record ''U1'' ''2025-03-10'' ex_corrupt) = None"
proof -
  have rows: "filter (for_user_workday ''U1'' ''2025-03-10'') (audits ex_corrupt) = [ex_corrupt_row]"
    by simp
  have vals: "ex_corrupt_row Col_id = SNull \<and> ex_corrupt_row Col_self_notified = SInt 3
      \<and> ex_corrupt_row Col_supervisor_notified = SInt 2"
    by (simp add: ex_corrupt_row_def ex_row_def)
  have keys: "list_all (\<lambda>x. x Col_user_slack_id \<noteq> SNull \<and> x Col_workday \<noteq> SNull) (audits ex_corrupt)"
    by (simp add: ex_corrupt_row_def ex_row_def)
  from manual_fix_one_row [OF keys rows, of ex_now] vals
  obtain i where "filter (for_user_workday ''U1'' ''2025-03-10'')
      (audits (snd (manual_fix ex_now ex_corrupt))) = [carried i ex_corrupt_row]"
    by blast
  then have m: "map (\<lambda>r. (r Col_self_notified, r Col_supervisor_notified))
        (filter (for_user_workday ''U1'' ''2025-03-10'')
           (audits (snd (manual_fix ex_now ex_corrupt)))) = [(SInt 3, SInt 2)]"
    using vals by (simp add: carried_def default_zero_def coalesce0_def)
  have g: "filter (for_user_workday ''U1'' ''2025-03-10'')
      (audits (snd (get_audit_record ''U1'' ''2025-03-10'' ex_corrupt))) =
      [inserted_row (new_record ''U1'' ''2025-03-10'' (user_expected_login_time ''U1'' ex_corrupt))
         (delete_audits ''U1'' ''2025-03-10'' ex_corrupt)]"
    using vals by (simp add: get_audit_record_recreates [OF rows])
  have g1: "map (\<lambda>r. (r Col_self_notified, r Col_supervisor_notified))
        (filter (for_user_workday ''U1'' ''2025-03-10'')
           (audits (snd (get_audit_record ''U1'' ''2025-03-10'' ex_corrupt)))) = [(SInt 0, SInt 0)]"
    by (simp only: g) (simp add: inserted_row_def new_record_def)
  have g2: "map (\<lambda>r. r Col_id)
        (filter (for_user_workday ''U1'' ''2025-03-10'')
           (audits (snd (get_audit_record ''U1'' ''2025-03-10'' ex_corrupt)))) = [SNull]"
    by (simp only: g) simp
  have g3: "fst (get_audit_record ''U1'' ''2025-03-10'' ex_corrupt) = None"
    using vals by (simp add: get_audit_record_repair_without_key [OF rows])
  from rows vals m g1 g2 g3 show ?thesis by blast
qed

text \<open>
  C7, amended. When the first record found for a user and workday has no id,
  \<open>get_audit_record\<close> deletes every record of that user and workday and inserts one in
  their place, which is then their only record: its reminder and notification counters
  and its acknowledgment flags are 0 and it has no login or logout time, whatever the
  deleted records held; the records of other users and days are untouched.
  \<open>manual_fix\<close>, on a table whose rows all name their user and workday, succeeds and
  leaves a table with its primary key in which every row has an id of its own; a user
  and workday whose only record had no id have exactly one record afterwards, a new
  row with an id that carries the counters and flags of the old one (NULL read as 0)
  and its other columns.
\<close>

theorem repair_recreates_record:
  "(filter (for_user_workday uid wd) (audits s) = r # rs \<and> r Col_id = SNull \<longrightarrow>
      (\<exists>new. filter (for_user_workday uid wd) (audits (snd (get_audit_record uid wd s))) = [new]
         \<and> list_all (\<lambda>c. new c = SInt 0)
              [Col_self_notified, Col_supervisor_notified, Col_second_supervisor_notified,
               Col_is_supervisor_acknowledged, Col_is_second_supervisor_acknowledged]
         \<and> new Col_login_time = SNull \<and> new Col_logout_time = SNull
         \<and> new Col_expected_login_time = user_expected_login_time uid s)
      \<and> filter (\<lambda>x. \<not> for_user_workday uid wd x) (audits (snd (get_audit_record uid wd s))) =
          filter (\<lambda>x. \<not> for_user_workday uid wd x) (audits s))
   \<and> (list_all (\<lambda>x. x Col_user_slack_id \<noteq> SNull \<and> x Col_workday \<noteq> SNull) (audits s)
        \<and> filter (for_user_workday uid wd) (audits s) = [r] \<and> r Col_id = SNull \<longrightarrow>
        fst (manual_fix now s) \<and> audits_pk (snd (manual_fix now s))
        \<and> ids_ok (audits (snd (manual_fix now s)))
        \<and> (\<exists>i. filter (for_user_workday uid wd) (audits (snd (manual_fix now s))) = [carried i r]))"
proof (intro conjI impI)
  assume a: "filter (for_user_workday uid wd) (audits s) = r # rs \<and> r Col_id = SNull"
  then have rows: "filter (for_user_workday uid wd) (audits s) = r # rs" and nul: "r Col_id = SNull"
    by simp_all
  let ?new = "inserted_row (new_record uid wd (user_expected_login_time uid s)) (delete_audits uid wd s)"
  have day: "filter (for_user_workday uid wd) (audits (snd (get_audit_record uid wd s))) = [?new]"
    by (simp add: get_audit_record_recreates [OF rows nul])
  have vals: "list_all (\<lambda>c. ?new c = SInt 0)
              [Col_self_notified, Col_supervisor_notified, Col_second_supervisor_notified,
               Col_is_supervisor_acknowledged, Col_is_second_supervisor_acknowledged]
         \<and> ?new Col_login_time = SNull \<and> ?new Col_logout_time = SNull
         \<and> ?new Col_expected_login_time = user_expected_login_time uid s"
    by (simp add: inserted_row_def new_record_def column_default_def default_zero_def)
  from day vals
  show "\<exists>new. filter (for_user_workday uid wd) (audits (snd (get_audit_record uid wd s))) = [new]
         \<and> list_all (\<lambda>c. new c = SInt 0)
              [Col_self_notified, Col_supervisor_notified, Col_second_supervisor_notified,
               Col_is_supervisor_acknowledged, Col_is_second_supervisor_acknowledged]
         \<and> new Col_login_time = SNull \<and> new Col_logout_time = SNull
         \<and> new Col_expected_login_time = user_expected_login_time uid s"
    by blast
  show "filter (\<lambda>x. \<not> for_user_workday uid wd x) (audits (snd (get_audit_record uid wd s))) =
          filter (\<lambda>x. \<not> for_user_workday uid wd x) (audits s)"
    by (simp add: get_audit_record_recreates [OF rows nul])
next
  assume a: "list_all (\<lambda>x. x Col_user_slack_id \<noteq> SNull \<and> x Col_workday \<noteq> SNull) (audits s)
        \<and> filter (for_user_workday uid wd) (audits s) = [r] \<and> r Col_id = SNull"
  then have m: "fst (manual_fix now s) \<and> audits_pk (snd (manual_fix now s))
         \<and> ids_ok (audits (snd (manual_fix now s)))
         \<and> (\<exists>i. filter (for_user_workday uid wd) (audits (snd (manual_fix now s))) = [carried i r])"
    using manual_fix_one_row [of s uid wd r now] by blast
  from m show "fst (manual_fix now s)" by blast
  from m show "audits_pk (snd (manual_fix now s))" by blast
  from m show "ids_ok (audits (snd (manual_fix now s)))" by blast
  from m show "\<exists>i. filter (for_user_workday uid wd) (audits (snd (manual_fix now s))) = [carried i r]"
    by blast
qed

theorem repair_recreates_record_witness:
  "filter (for_user_workday ''U1'' ''2025-03-10'') (audits ex_corrupt) = ex_corrupt_row # []
   \<and> ex_corrupt_row Col_id = SNull
   \<and> list_all (\<lambda>x. x Col_user_slack_id \<noteq> SNull \<and> x Col_workday \<noteq> SNull) (audits ex_corrupt)
   \<and> (\<exists>new. filter (for_user_workday ''U1'' ''2025-03-10'')
          (audits (snd (get_audit_record ''U1'' ''2025-03-10'' ex_corrupt))) = [new]
         \<and> list_all (\<lambda>c. new c = SInt 0)
              [Col_self_notified, Col_supervisor_notified, Col_second_supervisor_notified,
               Col_is_supervisor_acknowledged, Col_is_second_supervisor_acknowledged]
         \<and> new Col_login_time = SNull \<and> new Col_logout_time = SNull
         \<and> new Col_expected_login_time = user_expected_login_time ''U1'' ex_corrupt)
   \<and> fst (manual_fix ex_now ex_corrupt)
   \<and> audits_pk (snd (manual_fix ex_now ex_corrupt))
   \<and> ids_ok (audits (snd (manual_fix ex_now ex_corrupt)))
   \<and> (\<exists>i. filter (for_user_workday ''U1'' ''2025-03-10'')
          (audits (snd (manual_fix ex_now ex_corrupt))) = [carried i ex_corrupt_row])"
proof -
  have h1: "filter (for_user_workday ''U1'' ''2025-03-10'') (audits ex_corrupt) = ex_corrupt_row # []"
    by simp
  have h2: "ex_corrupt_row Col_id = SNull" by simp
  have h3: "list_all (\<lambda>x. x Col_user_slack_id \<noteq> SNull \<and> x Col_workday \<noteq> SNull) (audits ex_corrupt)"
    by (simp add: ex_corrupt_row_def ex_row_def)
  note inst = repair_recreates_record
    [where s = ex_corrupt and uid = "''U1''" and wd = "''2025-03-10''" and r = ex_corrupt_row
       and rs = "[]" and now = ex_now]
  from inst h1 h2 h3 show ?thesis by blast
qed

subsection \<open>The users past their expected login without a login\<close>

text \<open>For texts of the form \<open>HH:MM\<close>, SQLite's comparison of texts is the comparison
  of the times of day.\<close>

lemma of_char_digit: "(of_char (digit n) :: nat) = 48 + n mod 10"
proof -
  have "n mod 10 < 10" by simp
  then have "n mod 10 = 0 \<or> n mod 10 = 1 \<or> n mod 10 = 2 \<or> n mod 10 = 3 \<or> n mod 10 = 4
    \<or> n mod 10 = 5 \<or> n mod 10 = 6 \<or> n mod 10 = 7 \<or> n mod 10 = 8 \<or> n mod 10 = 9"
    by arith
  then show ?thesis
    by (elim disjE) (simp_all add: digit_def)
qed

lemma digit_val_Some: "digit_val c = Some x \<Longrightarrow> (of_char c :: nat) = 48 + x \<and> x < 10"
  by (auto simp: digit_val_def split: if_splits)

lemma char_eq_of_char: "c = d \<longleftrightarrow> (of_char c :: nat) = of_char d"
  by simp

lemma time_of_day_Some:
  assumes "time_of_day t = Some m"
  shows "\<exists>c1 c2 c3 c4 x1 x2 y1 y2. t = [c1, c2, CHR 0x3A, c3, c4]
      \<and> (of_char c1 :: nat) = 48 + x1 \<and> (of_char c2 :: nat) = 48 + x2
      \<and> (of_char c3 :: nat) = 48 + y1 \<and> (of_char c4 :: nat) = 48 + y2
      \<and> x1 < 10 \<and> x2 < 10 \<and> y1 < 10 \<and> y2 < 10
      \<and> 10 * x1 + x2 < 24 \<and> 10 * y1 + y2 < 60
      \<and> m = 60 * (10 * x1 + x2) + (10 * y1 + y2)"
proof -
  from assms obtain c1 c2 c c3 c4 where t: "t = [c1, c2, c, c3, c4]"
    by (cases t rule: time_of_day.cases) auto
  from assms t obtain h mi where hm: "two_digits c1 c2 = Some h" "two_digits c3 c4 = Some mi"
    and rest: "c = CHR 0x3A" "h < 24" "mi < 60" "m = 60 * h + mi"
    by (auto split: option.splits if_splits)
  from hm(1) obtain x1 x2 where x: "digit_val c1 = Some x1" "digit_val c2 = Some x2" "h = 10 * x1 + x2"
    by (auto simp: two_digits_def split: option.splits)
  from hm(2) obtain y1 y2 where y: "digit_val c3 = Some y1" "digit_val c4 = Some y2" "mi = 10 * y1 + y2"
    by (auto simp: two_digits_def split: option.splits)
  show ?thesis
    using t rest x y digit_val_Some [OF x(1)] digit_val_Some [OF x(2)]
      digit_val_Some [OF y(1)] digit_val_Some [OF y(2)]
    by blast
qed

lemma lex10:
  fixes a b r s :: nat
  assumes "r < 10" "s < 10"
  shows "(a < b \<or> a = b \<and> (r < s \<or> r = s)) \<longleftrightarrow> 10 * a + r \<le> 10 * b + s"
  using assms by (cases a b rule: linorder_cases) auto

lemma lex60:
  fixes a b r s :: nat
  assumes "r < 60" "s < 60"
  shows "(a < b \<or> a = b \<and> r \<le> s) \<longleftrightarrow> 60 * a + r \<le> 60 * b + s"
  using assms by (cases a b rule: linorder_cases) auto

lemma lex600:
  fixes a b r s :: nat
  assumes "r < 600" "s < 600"
  shows "(a < b \<or> a = b \<and> r \<le> s) \<longleftrightarrow> 600 * a + r \<le> 600 * b + s"
  using assms by (cases a b rule: linorder_cases) auto

lemma lex_is_numeric:
  fixes x1 x2 y1 y2 X1 X2 Y1 Y2 :: nat
  assumes "x2 < 10" "X2 < 10" "y2 < 10" "Y2 < 10" "10 * y1 + y2 < 60" "10 * Y1 + Y2 < 60"
  shows "(x1 < X1 \<or> x1 = X1 \<and> (x2 < X2 \<or> x2 = X2 \<and> (y1 < Y1 \<or> y1 = Y1 \<and> (y2 < Y2 \<or> y2 = Y2))))
     \<longleftrightarrow> 60 * (10 * x1 + x2) + (10 * y1 + y2) \<le> 60 * (10 * X1 + X2) + (10 * Y1 + Y2)"
proof -
  have r: "60 * x2 + (10 * y1 + y2) < 600" "60 * X2 + (10 * Y1 + Y2) < 600"
    using assms by linarith+
  have "(x1 < X1 \<or> x1 = X1 \<and> (x2 < X2 \<or> x2 = X2 \<and> (y1 < Y1 \<or> y1 = Y1 \<and> (y2 < Y2 \<or> y2 = Y2))))
     \<longleftrightarrow> (x1 < X1 \<or> x1 = X1 \<and> (x2 < X2 \<or> x2 = X2 \<and> 10 * y1 + y2 \<le> 10 * Y1 + Y2))"
    by (simp only: lex10 [OF assms(3,4)])
  also have "\<dots> \<longleftrightarrow> (x1 < X1 \<or> x1 = X1 \<and> 60 * x2 + (10 * y1 + y2) \<le> 60 * X2 + (10 * Y1 + Y2))"
    by (simp only: lex60 [OF assms(5,6)])
  also have "\<dots> \<longleftrightarrow> 600 * x1 + (60 * x2 + (10 * y1 + y2)) \<le> 600 * X1 + (60 * X2 + (10 * Y1 + Y2))"
    by (simp only: lex600 [OF r])
  also have "\<dots> \<longleftrightarrow> 60 * (10 * x1 + x2) + (10 * y1 + y2) \<le> 60 * (10 * X1 + X2) + (10 * Y1 + Y2)"
    by (simp add: add.assoc)
  finally show ?thesis .
qed

lemma text_le_time:
  assumes "time_of_day t = Some m" and "hour now < 24" and "minute now < 60"
  shows "text_le t (strftime_HM now) \<longleftrightarrow> m \<le> 60 * hour now + minute now"
proof -
  from time_of_day_Some [OF assms(1)] obtain c1 c2 c3 c4 x1 x2 y1 y2 where
    t: "t = [c1, c2, CHR 0x3A, c3, c4]"
    and c: "(of_char c1 :: nat) = 48 + x1" "(of_char c2 :: nat) = 48 + x2"
      "(of_char c3 :: nat) = 48 + y1" "(of_char c4 :: nat) = 48 + y2"
    and b: "x1 < 10" "x2 < 10" "y1 < 10" "y2 < 10" "10 * x1 + x2 < 24" "10 * y1 + y2 < 60"
    and m: "m = 60 * (10 * x1 + x2) + (10 * y1 + y2)"
    by blast
  define X1 X2 Y1 Y2 where "X1 = hour now div 10" and "X2 = hour now mod 10"
    and "Y1 = minute now div 10" and "Y2 = minute now mod 10"
  have H: "hour now = 10 * X1 + X2" "minute now = 10 * Y1 + Y2" "X2 < 10" "Y2 < 10"
    "X1 mod 10 = X1" "Y1 mod 10 = Y1"
    using assms(2,3) by (auto simp: X1_def X2_def Y1_def Y2_def)
  have s: "strftime_HM now = [digit X1, digit (hour now), CHR 0x3A, digit Y1, digit (minute now)]"
    by (simp add: strftime_HM_def pad2_def X1_def Y1_def)
  have d: "(of_char (digit X1) :: nat) = 48 + X1" "(of_char (digit (hour now)) :: nat) = 48 + X2"
    "(of_char (digit Y1) :: nat) = 48 + Y1" "(of_char (digit (minute now)) :: nat) = 48 + Y2"
    using H(5,6) by (simp_all add: of_char_digit X2_def Y2_def)
  have "text_le t (strftime_HM now) \<longleftrightarrow>
     (x1 < X1 \<or> x1 = X1 \<and> (x2 < X2 \<or> x2 = X2 \<and> (y1 < Y1 \<or> y1 = Y1 \<and> (y2 < Y2 \<or> y2 = Y2))))"
    unfolding t s by (simp add: char_eq_of_char c d del: of_char_eq_iff)
  also have "\<dots> \<longleftrightarrow> 60 * (10 * x1 + x2) + (10 * y1 + y2) \<le> 60 * (10 * X1 + X2) + (10 * Y1 + Y2)"
    using b H assms(3) by (intro lex_is_numeric) auto
  finally show ?thesis by (simp add: m H(1,2))
qed

lemma sql_eq_text: "sql_eq a (SText t) \<longleftrightarrow> a = SText t"
  by (auto simp: sql_eq_def)

lemma sql_in_rows:
  "sql_in (SText uid) (map (\<lambda>r. r Col_user_slack_id) (filter P rows)) \<longleftrightarrow>
   list_ex (\<lambda>r. r Col_user_slack_id = SText uid \<and> P r) rows"
  by (induction rows) (auto simp: sql_in_def sql_eq_def)

lemma sql_not_in_rows_null:
  "sql_not_in (SText uid) (map (\<lambda>r. r Col_user_slack_id) (filter P rows)) \<longleftrightarrow>
   \<not> list_ex (\<lambda>r. (r Col_user_slack_id = SText uid \<or> r Col_user_slack_id = SNull) \<and> P r) rows"
proof -
  have a: "list_ex (sql_eq (SText uid)) (map (\<lambda>r. r Col_user_slack_id) (filter P rows)) \<longleftrightarrow>
      list_ex (\<lambda>r. r Col_user_slack_id = SText uid \<and> P r) rows"
    by (induction rows) (auto simp: sql_eq_def)
  have b: "SNull \<in> set (map (\<lambda>r. r Col_user_slack_id) (filter P rows)) \<longleftrightarrow>
      list_ex (\<lambda>r. r Col_user_slack_id = SNull \<and> P r) rows"
    by (induction rows) auto
  have c: "map (\<lambda>r. r Col_user_slack_id) (filter P rows) = [] \<longleftrightarrow> \<not> list_ex P rows"
    by (simp add: filter_Nil_list_ex)
  show ?thesis
    unfolding sql_not_in_def using a b c by (auto simp: list_ex_iff)
qed

lemma rows_of_today:
  "(sql_not_in (SText (user_slack_id u))
         (map (\<lambda>r. r Col_user_slack_id)
            (filter (\<lambda>r. sql_eq (r Col_workday) (SText today) \<and> r Col_login_time \<noteq> SNull) (audits s)))
       \<or> sql_in (SText (user_slack_id u))
         (map (\<lambda>r. r Col_user_slack_id)
            (filter (\<lambda>r. r Col_login_time = SNull \<and> sql_eq (r Col_workday) (SText today)) (audits s)))) =
      (\<not> login_recorded_today today s u \<or> has_unset_login_today today s u)"
  by (simp only: sql_not_in_rows_null sql_in_rows login_recorded_today_def
        has_unset_login_today_def sql_eq_text)
     (auto simp: list_ex_iff)

lemma login_recorded_with_user:
  assumes "list_all (\<lambda>r. r Col_user_slack_id \<noteq> SNull) (audits s)"
  shows "login_recorded_today today s u = has_login_today today s u"
  using assms by (auto simp: login_recorded_today_def has_login_today_def list_ex_iff list_all_iff)

text \<open>
  C5, as the claim states it, fails: the query compares texts and never reads a time of
  day. A user whose expected login time is the empty text (the dashboard stores the
  field as it is left) has no expected time of day, and is returned at every time of
  every day on which no login of theirs is recorded.
\<close>

theorem get_users_without_login_blank_time:
  "user_login_time ex_blank_user = Some ''''
   \<and> \<not> past_expected_login ex_now ex_blank_user
   \<and> users_without_login_as_specified ex_now ex_blank = []
   \<and> get_users_without_login ex_now ex_blank = {#ex_blank_user#}"
  by (simp add: get_users_without_login_def users_without_login_as_specified_def
        past_expected_login_def ex_blank_def ex_blank_user_def ex_empty_def ex_db_def
        sql_not_in_def Let_def)

text \<open>
  C5, amended. \<open>get_users_without_login\<close> returns, in an order the query does not
  fix, exactly the users whose expected login time is not NULL and is, as a text, at
  most the text \<open>HH:MM\<close> of the current time, and who either have no record for today
  with a login time that is theirs or lacks its user, or have a record for today whose
  login time is not set. For an expected login time of the form \<open>HH:MM\<close> the
  comparison of texts is that of the times of day; so where every expected login time
  is of that form and no record lacks its user, the users returned are those whose
  expected login time of day is at most the current time of day and who either have no
  record for today with a login time, or have a record for today whose login time is
  not set.
\<close>

theorem get_users_without_login_by_text:
  "get_users_without_login now s =
     mset (filter
       (\<lambda>u. expected_by_text now u
            \<and> (\<not> login_recorded_today (strftime_Ymd now) s u
                \<or> has_unset_login_today (strftime_Ymd now) s u))
       (users s))
   \<and> (hour now < 24 \<and> minute now < 60 \<and> user_login_time u = Some t \<and> time_of_day t = Some m \<longrightarrow>
        (expected_by_text now u \<longleftrightarrow> m \<le> 60 * hour now + minute now))
   \<and> (hour now < 24 \<and> minute now < 60
        \<and> list_all (\<lambda>u. case user_login_time u of None \<Rightarrow> True | Some t \<Rightarrow> time_of_day t \<noteq> None)
             (users s)
        \<and> list_all (\<lambda>r. r Col_user_slack_id \<noteq> SNull) (audits s) \<longrightarrow>
        get_users_without_login now s = mset (users_without_login_as_specified now s))"
proof -
  have c1: "get_users_without_login now s =
     mset (filter
       (\<lambda>u. expected_by_text now u
            \<and> (\<not> login_recorded_today (strftime_Ymd now) s u
                \<or> has_unset_login_today (strftime_Ymd now) s u))
       (users s))"
    unfolding get_users_without_login_def Let_def
    by (simp only: rows_of_today expected_by_text_def)
  have c2: "expected_by_text now u \<longleftrightarrow> m \<le> 60 * hour now + minute now"
    if "hour now < 24 \<and> minute now < 60 \<and> user_login_time u = Some t \<and> time_of_day t = Some m"
  proof -
    from that have t: "user_login_time u = Some t" and m: "time_of_day t = Some m"
      and h: "hour now < 24" "minute now < 60"
      by simp_all
    from text_le_time [OF m h] t show ?thesis by (simp add: expected_by_text_def)
  qed
  have c3: "get_users_without_login now s = mset (users_without_login_as_specified now s)"
    if hyp: "hour now < 24 \<and> minute now < 60
        \<and> list_all (\<lambda>u. case user_login_time u of None \<Rightarrow> True | Some t \<Rightarrow> time_of_day t \<noteq> None)
             (users s)
        \<and> list_all (\<lambda>r. r Col_user_slack_id \<noteq> SNull) (audits s)"
  proof -
    from hyp have h: "hour now < 24" "minute now < 60"
      and form: "list_all (\<lambda>u. case user_login_time u of None \<Rightarrow> True | Some t \<Rightarrow> time_of_day t \<noteq> None)
             (users s)"
      and user: "list_all (\<lambda>r. r Col_user_slack_id \<noteq> SNull) (audits s)"
      by simp_all
    have time: "expected_by_text now u = past_expected_login now u" if "u \<in> set (users s)" for u
    proof (cases "user_login_time u")
      case None
      then show ?thesis by (simp add: past_expected_login_def expected_by_text_def)
    next
      case (Some t)
      with form that obtain m where "time_of_day t = Some m"
        by (auto simp: list_all_iff split: option.splits)
      with text_le_time [OF this h] Some show ?thesis
        by (simp add: past_expected_login_def expected_by_text_def)
    qed
    have "filter
       (\<lambda>u. expected_by_text now u
            \<and> (\<not> login_recorded_today (strftime_Ymd now) s u
                \<or> has_unset_login_today (strftime_Ymd now) s u))
       (users s) = users_without_login_as_specified now s"
      unfolding users_without_login_as_specified_def
      by (rule filter_cong [OF refl]) (simp only: time login_recorded_with_user [OF user])
    with c1 show ?thesis by (simp only:)
  qed
  from c1 c2 c3 show ?thesis by blast
qed

text \<open>Outside the form \<open>HH:MM\<close> the comparison of texts is not that of times: a user
  expected at \<open>9:30\<close> is not returned at 10:00.\<close>

lemma get_users_without_login_unpadded:
  "get_users_without_login (ex_now\<lparr>hour := 10, minute := 0\<rparr>)
     (ex_empty\<lparr>users := [ex_user\<lparr>user_login_time := Some ''9:30''\<rparr>]\<rparr>) = {#}"
  by (simp add: get_users_without_login_def Let_def strftime_HM_def pad2_def digit_def ex_user_def
        ex_now_def)

theorem get_users_without_login_by_text_witness:
  "hour ex_now < 24 \<and> minute ex_now < 60
   \<and> user_login_time ex_user = Some ''09:00'' \<and> time_of_day ''09:00'' = Some 540
   \<and> expected_by_text ex_now ex_user
   \<and> list_all (\<lambda>u. case user_login_time u of None \<Rightarrow> True | Some t \<Rightarrow> time_of_day t \<noteq> None)
        (users ex_db)
   \<and> list_all (\<lambda>r. r Col_user_slack_id \<noteq> SNull) (audits ex_db)
   \<and> get_users_without_login ex_now ex_db = mset (users_without_login_as_specified ex_now ex_db)
   \<and> users_without_login_as_specified ex_now ex_db = [ex_user]"
proof -
  have h1: "hour ex_now < 24" and h2: "minute ex_now < 60" by simp_all
  have h3: "list_all (\<lambda>u. case user_login_time u of None \<Rightarrow> True | Some t \<Rightarrow> time_of_day t \<noteq> None)
        (users ex_db)"
    by (simp add: ex_user_def two_digits_def digit_val_def)
  have h4: "list_all (\<lambda>r. r Col_user_slack_id \<noteq> SNull) (audits ex_db)"
    by (simp add: ex_row_def)
  have h5: "user_login_time ex_user = Some ''09:00''"
    by (simp add: ex_user_def)
  have h6: "time_of_day ''09:00'' = Some 540"
    by (simp add: two_digits_def digit_val_def)
  have h7: "(540::nat) \<le> 60 * hour ex_now + minute ex_now" by simp
  have v: "users_without_login_as_specified ex_now ex_db = [ex_user]"
    by (simp add: users_without_login_as_specified_def past_expected_login_def has_login_today_def
          has_unset_login_today_def ex_user_def ex_row_def two_digits_def digit_val_def)
  note inst = get_users_without_login_by_text
    [where now = ex_now and s = ex_db and u = ex_user and t = "''09:00''" and m = 540]
  have c2: "expected_by_text ex_now ex_user"
    using inst h1 h2 h5 h6 h7 by blast
  have c3: "get_users_without_login ex_now ex_db = mset (users_without_login_as_specified ex_now ex_db)"
    using inst h1 h2 h3 h4 by blast
  from h1 h2 h3 h4 h5 h6 c2 c3 v show ?thesis
    by blast
qed

end
